theory Spec2Isabelle
  imports Complex_Main "HOL-Library.Multiset"
begin

section \<open>Plays, queue entries and errors\<close>

text \<open>
  A shallow embedding of the client core of multi-scrobbler
  (\<^verbatim>\<open>src/backend/scrobblers/AbstractScrobbleClient.ts\<close>) and of
  \<^verbatim>\<open>SpotifySource.formatPlayObj\<close>.

  A \<^verbatim>\<open>Dayjs\<close> instant is its epoch value in milliseconds; \<^verbatim>\<open>isAfter\<close> is \<open><\<close> on
  these values. A JavaScript number used as a score is the real number that the double
  stands for, and the arithmetic on scores rounds to doubles.
  An optional field is an \<open>option\<close>. Logger calls have no effect on the state and are left out.
\<close>

type_synonym dayjs = int

definition unix :: "dayjs \<Rightarrow> int" where
  \<comment> \<open>\<^verbatim>\<open>dayjs.unix()\<close>: whole seconds since the epoch, rounded down.\<close>
  "unix d = d div 1000"

record PlayData =
  track :: string
  artists :: "string list"
  albumArtists :: "string list"
  album :: "string option"
  duration :: "real option"
  playDate :: dayjs

record PlayMeta =
  source_meta :: "string option"
  deviceId :: "string option"
  trackId :: "string option"
  trackProgressPosition :: "real option"
  newFromSource :: bool
  url_web :: "string option"

record PlayObject =
  data :: PlayData
  meta :: PlayMeta

record QueuedScrobble =
  id_q :: string
  source :: string
  play :: PlayObject

record DeadLetterScrobble = QueuedScrobble +
  retries :: nat
  error :: string
  lastRetry :: "dayjs option"

record ScrobbledPlayObject =
  play_s :: PlayObject
  scrobble_s :: PlayObject

text \<open>
  Thrown values. \<^verbatim>\<open>UpstreamError\<close> carries its \<^verbatim>\<open>showStopper\<close> flag; every error may carry
  a cause. \<^verbatim>\<open>TypeError\<close> is what the runtime throws on a property read of \<^verbatim>\<open>undefined\<close>.
\<close>

datatype error =
    UpstreamError string bool "error option"
  | Error string "error option"
  | TypeError string

fun isNonShowStoppingUpstream :: "error \<Rightarrow> bool" where
  \<comment> \<open>\<^verbatim>\<open>e instanceof UpstreamError && e.showStopper === false\<close>\<close>
  "isNonShowStoppingUpstream (UpstreamError m s c) = (\<not> s)"
| "isNonShowStoppingUpstream (Error m c) = False"
| "isNonShowStoppingUpstream (TypeError m) = False"

datatype event =
    StatusChange string
  | Scrobble PlayObject
  | ScrobbleQueued QueuedScrobble
  | ScrobbleDequeued QueuedScrobble
  | DeadLetter DeadLetterScrobble

datatype InitState = NOT_INITIALIZED | INITIALIZING | INITIALIZED

section \<open>Client state\<close>

text \<open>
  The fields of \<^verbatim>\<open>AbstractScrobbleClient\<close> that the modelled methods read or write.
  \<open>config_data\<close> is \<^verbatim>\<open>config.data\<close>, which a configuration may lack; of it only the
  option \<^verbatim>\<open>options.deadLetterRetries\<close> is read here, and it may be unset.
  Four fields are not fields of the class; they make effects of the class on its
  surroundings visible: \<open>emitted\<close> collects the events given to \<^verbatim>\<open>emitter.emit\<close>,
  \<open>adapterCalls\<close> the plays handed to \<^verbatim>\<open>doScrobble\<close>, \<open>now\<close> is the clock read by
  \<^verbatim>\<open>dayjs()\<close> and advanced by \<^verbatim>\<open>sleep\<close>, and \<open>nanoids\<close> counts the calls of \<^verbatim>\<open>nanoid()\<close>.
\<close>

record ClientData =
  deadLetterRetries :: "nat option"

record client =
  initState :: InitState
  requiresAuth :: bool
  authed :: bool
  MAX_STORED_SCROBBLES :: nat
  recentScrobbles :: "PlayObject list"
  scrobbledPlayObjs :: "ScrobbledPlayObject list"
  newestScrobbleTime :: "dayjs option"
  oldestScrobbleTime :: "dayjs option"
  tracksScrobbled :: nat
  lastScrobbleCheck :: dayjs
  lastScrobbleAttempt :: dayjs
  checkExistingScrobbles :: bool
  scrobbleDelay :: int
  scrobbleSleep :: int
  scrobbling :: bool
  userScrobblingStopSignal :: bool
  queuedScrobbles :: "QueuedScrobble list"
  deadLetterScrobbles :: "DeadLetterScrobble list"
  config_data :: "ClientData option"
  emitted :: "event list"
  adapterCalls :: "PlayObject list"
  now :: dayjs
  nanoids :: nat

section \<open>Collaborators that are not in this file\<close>

text \<open>
  Modelled from the spec: the temporal accuracy of two play dates is one of EXACT, CLOSE,
  FUZZY or none (\<^verbatim>\<open>TA_EXACT\<close>, \<^verbatim>\<open>TA_CLOSE\<close>, \<^verbatim>\<open>TA_FUZZY\<close> of \<^verbatim>\<open>core/Atomic\<close>), from the
  most to the least accurate, and \<^verbatim>\<open>temporalAccuracyIsAtLeast expected found\<close> of
  \<^verbatim>\<open>utils/TimeUtils\<close> holds when \<open>found\<close> is at least as accurate as \<open>expected\<close>.
\<close>

datatype TemporalAccuracy = TA_EXACT | TA_CLOSE | TA_FUZZY | TA_NONE

fun accuracyRank :: "TemporalAccuracy \<Rightarrow> nat" where
  "accuracyRank TA_EXACT = 1"
| "accuracyRank TA_CLOSE = 2"
| "accuracyRank TA_FUZZY = 3"
| "accuracyRank TA_NONE = 99"

definition temporalAccuracyIsAtLeast :: "TemporalAccuracy \<Rightarrow> TemporalAccuracy \<Rightarrow> bool" where
  "temporalAccuracyIsAtLeast expected found = (accuracyRank found \<le> accuracyRank expected)"

text \<open>
  Modelled from the spec: the weights of \<^verbatim>\<open>common/infrastructure/Atomic\<close>, with the
  reference values 0.3 / 0.4 / 0.3, and the duplicate threshold 0.8. These are the
  decimal values as written; the code works with the doubles next to them.
\<close>

definition ARTIST_WEIGHT :: real where "ARTIST_WEIGHT = 3 / 10"
definition TITLE_WEIGHT :: real where "TITLE_WEIGHT = 4 / 10"
definition TIME_WEIGHT :: real where "TIME_WEIGHT = 3 / 10"
definition DUP_SCORE_THRESHOLD :: real where "DUP_SCORE_THRESHOLD = 8 / 10"

text \<open>
  Modelled from the spec: \<^verbatim>\<open>sortByOldestPlayDate\<close> of \<^verbatim>\<open>utils\<close> orders plays by
  \<^verbatim>\<open>playDate\<close>, oldest first; \<^verbatim>\<open>Array.prototype.sort\<close> with it is a stable sort on the
  play date.
\<close>

definition sortByOldestPlayDate :: "('a \<Rightarrow> PlayObject) \<Rightarrow> 'a list \<Rightarrow> 'a list" where
  "sortByOldestPlayDate playOf xs = sort_key (\<lambda>x. playDate (data (playOf x))) xs"

text \<open>
  What a refresh of the upstream snapshot may assign: the recent scrobbles, their oldest
  and newest play date, the time of the check, and the stored scrobbles after filtering.
\<close>

record refreshed =
  r_recentScrobbles :: "PlayObject list"
  r_oldestScrobbleTime :: "dayjs option"
  r_newestScrobbleTime :: "dayjs option"
  r_lastScrobbleCheck :: dayjs
  r_scrobbledPlayObjs :: "ScrobbledPlayObject list"

text \<open>
  The remaining collaborators are parameters. \<open>comparePlayTemporally\<close> gives the
  \<^verbatim>\<open>match\<close> of the temporal comparison; \<open>compareScrobbleTracks\<close> gives the \<^verbatim>\<open>highScore\<close>
  of the title comparison and \<open>compareScrobbleArtists\<close> the artist score, both on a
  scale of 100; \<open>describeTooOld\<close> builds the log text of the timeframe check.
  \<open>refreshScrobbles\<close>, \<open>alreadyScrobbled\<close> and \<open>doScrobble\<close> are the methods that a
  concrete client supplies; each may throw. \<open>fixedSizeListAdd\<close> is \<^verbatim>\<open>FixedSizeList.add\<close>
  for a given capacity, \<open>messageWithCauses\<close> the function of \<^verbatim>\<open>pony-cause\<close>, \<open>nanoid\<close> the
  identifier returned by the n-th call of \<^verbatim>\<open>nanoid()\<close>, and \<open>otherTasks\<close> what the other
  tasks of the process do to the client while the worker sleeps between two passes.
  \<open>comparingMultipleArtists\<close> is the helper of that name in \<^verbatim>\<open>utils\<close>, whose body is not
  at hand.

  A JavaScript number is a double. Its value is a real number, and comparisons,
  \<^verbatim>\<open>Math.min\<close> and \<^verbatim>\<open>Math.max\<close> of doubles are those of their values; a sum, difference,
  product or quotient is the exact result rounded to a double, and a decimal literal
  denotes the double next to it. \<open>toDouble\<close> is this rounding. Whole numbers such as
  1 and 100 are doubles as they stand. Infinite values and NaN are left out.
\<close>

record env =
  comparePlayTemporally :: "PlayObject \<Rightarrow> PlayObject \<Rightarrow> TemporalAccuracy"
  playObjDataMatch :: "PlayObject \<Rightarrow> PlayObject \<Rightarrow> bool"
  compareScrobbleTracks :: "PlayObject \<Rightarrow> PlayObject \<Rightarrow> real"
  compareScrobbleArtists :: "PlayObject \<Rightarrow> PlayObject \<Rightarrow> real"
  normalizeStr :: "string \<Rightarrow> string"
  describeTooOld :: "dayjs \<Rightarrow> dayjs \<Rightarrow> string"
  refreshScrobbles :: "client \<Rightarrow> error + refreshed"
  alreadyScrobbled :: "client \<Rightarrow> PlayObject \<Rightarrow> error + bool"
  doScrobble :: "client \<Rightarrow> PlayObject \<Rightarrow> error + PlayObject"
  fixedSizeListAdd :: "nat \<Rightarrow> ScrobbledPlayObject \<Rightarrow> ScrobbledPlayObject list \<Rightarrow> ScrobbledPlayObject list"
  messageWithCauses :: "error \<Rightarrow> string"
  nanoid :: "nat \<Rightarrow> string"
  otherTasks :: "client \<Rightarrow> client"
  comparingMultipleArtists :: "PlayObject \<Rightarrow> PlayObject \<Rightarrow> bool"
  toDouble :: "real \<Rightarrow> real"

definition addD :: "env \<Rightarrow> real \<Rightarrow> real \<Rightarrow> real" where
  \<comment> \<open>\<^verbatim>\<open>a + b\<close> on JavaScript numbers\<close>
  "addD e a b = toDouble e (a + b)"

definition subD :: "env \<Rightarrow> real \<Rightarrow> real \<Rightarrow> real" where
  \<comment> \<open>\<^verbatim>\<open>a - b\<close> on JavaScript numbers\<close>
  "subD e a b = toDouble e (a - b)"

definition mulD :: "env \<Rightarrow> real \<Rightarrow> real \<Rightarrow> real" where
  \<comment> \<open>\<^verbatim>\<open>a * b\<close> on JavaScript numbers\<close>
  "mulD e a b = toDouble e (a * b)"

definition divD :: "env \<Rightarrow> real \<Rightarrow> real \<Rightarrow> real" where
  \<comment> \<open>\<^verbatim>\<open>a / b\<close> on JavaScript numbers\<close>
  "divD e a b = toDouble e (a / b)"

section \<open>Small methods of the client\<close>

definition sleep :: "int \<Rightarrow> client \<Rightarrow> client" where
  "sleep ms c = c\<lparr>now := now c + ms\<rparr>"

definition emitEvent :: "event \<Rightarrow> client \<Rightarrow> client" where
  "emitEvent ev c = c\<lparr>emitted := emitted c @ [ev]\<rparr>"

definition authGated :: "client \<Rightarrow> bool" where
  "authGated c = (requiresAuth c \<and> \<not> authed c)"

definition isReady :: "client \<Rightarrow> bool" where
  "isReady c = (initState c = INITIALIZED \<and> \<not> authGated c)"

definition set_recentScrobbles :: "PlayObject list \<Rightarrow> client \<Rightarrow> client" where
  \<comment> \<open>the setter \<^verbatim>\<open>recentScrobbles\<close>: a sorted copy is stored\<close>
  "set_recentScrobbles scrobbles c =
     c\<lparr>recentScrobbles := sortByOldestPlayDate (\<lambda>p. p) scrobbles\<rparr>"

definition doRefresh :: "env \<Rightarrow> client \<Rightarrow> (error + unit) \<times> client" where
  \<comment> \<open>\<^verbatim>\<open>await this.refreshScrobbles()\<close>\<close>
  "doRefresh e c =
     (case refreshScrobbles e c of
        Inl err \<Rightarrow> (Inl err, c)
      | Inr r \<Rightarrow>
          (Inr (),
           (set_recentScrobbles (r_recentScrobbles r) c)
             \<lparr>oldestScrobbleTime := r_oldestScrobbleTime r,
              newestScrobbleTime := r_newestScrobbleTime r,
              lastScrobbleCheck := r_lastScrobbleCheck r,
              scrobbledPlayObjs := r_scrobbledPlayObjs r\<rparr>))"

section \<open>Timeframe check\<close>

text \<open>\<^verbatim>\<open>timeFrameIsValid\<close> returns the pair \<^verbatim>\<open>[validTime, log]\<close>.\<close>

definition timeFrameIsValid :: "env \<Rightarrow> client \<Rightarrow> PlayObject \<Rightarrow> bool \<times> string" where
  "timeFrameIsValid e c playObj =
     (case oldestScrobbleTime c of
        None \<Rightarrow> (True, [])
      | Some oldest \<Rightarrow>
          (let validTime = (oldest < playDate (data playObj));
               log = (if \<not> validTime then describeTooOld e (playDate (data playObj)) oldest
                      else [])
           in (validTime, log)))"

definition addScrobbledTrack :: "env \<Rightarrow> PlayObject \<Rightarrow> PlayObject \<Rightarrow> client \<Rightarrow> client" where
  "addScrobbledTrack e playObj scrobbledPlay c =
     c\<lparr>scrobbledPlayObjs :=
          fixedSizeListAdd e (MAX_STORED_SCROBBLES c)
            \<lparr>play_s = playObj, scrobble_s = scrobbledPlay\<rparr> (scrobbledPlayObjs c),
       tracksScrobbled := tracksScrobbled c + 1\<rparr>"

section \<open>Existing-scrobble check\<close>

definition findExistingSubmittedPlayObj ::
  "env \<Rightarrow> client \<Rightarrow> PlayObject \<Rightarrow> ScrobbledPlayObject option \<times> ScrobbledPlayObject list" where
  "findExistingSubmittedPlayObj e c playObj =
     (let dtInvariantMatches =
            filter (\<lambda>x. playObjDataMatch e playObj (play_s x)) (scrobbledPlayObjs c)
      in if length dtInvariantMatches = 0 then (None, [])
         else (find (\<lambda>x. temporalAccuracyIsAtLeast TA_CLOSE
                             (comparePlayTemporally e (play_s x) playObj))
                 dtInvariantMatches,
               dtInvariantMatches))"

definition compareExistingScrobbleTitle :: "env \<Rightarrow> PlayObject \<Rightarrow> PlayObject \<Rightarrow> real" where
  "compareExistingScrobbleTitle e existing candidate =
     min (divD e (compareScrobbleTracks e existing candidate) 100) 1"

definition compareExistingScrobbleArtist ::
  "env \<Rightarrow> PlayObject \<Rightarrow> PlayObject \<Rightarrow> real \<times> nat" where
  "compareExistingScrobbleArtist e existing candidate =
     (let normExisting = map (normalizeStr e) (artists (data existing));
          candidateExisting = map (normalizeStr e) (artists (data candidate));
          wholeMatches = card (set normExisting \<inter> set candidateExisting)
      in (min (divD e (compareScrobbleArtists e existing candidate) 100) 1, wholeMatches))"

text \<open>
  The callback given to \<^verbatim>\<open>recentScrobbles.find\<close> computes a time subscore and a score for
  one recent scrobble \<open>x\<close>; they are the functions \<open>timeMatch\<close> and \<open>score\<close> here, named
  after its local variables. \<open>timeMatch\<close> gives the decimal value of the literal that the
  code assigns, and \<open>score\<close> works with the double it denotes. The closest match, which the
  callback also keeps, is only written to the log.
\<close>

definition timeMatch :: "env \<Rightarrow> PlayObject \<Rightarrow> PlayObject \<Rightarrow> real" where
  "timeMatch e x playObj =
     (let temporalComparison = comparePlayTemporally e x playObj
      in if temporalAccuracyIsAtLeast TA_CLOSE temporalComparison then 1
         else if temporalComparison = TA_FUZZY then 6 / 10
         else 0)"

definition score :: "env \<Rightarrow> PlayObject \<Rightarrow> PlayObject \<Rightarrow> real" where
  "score e x playObj =
     (let tm = toDouble e (timeMatch e x playObj);
          titleMatch = compareExistingScrobbleTitle e x playObj;
          (artistMatch, wholeMatches) = compareExistingScrobbleArtist e x playObj;
          artistScore = mulD e (toDouble e ARTIST_WEIGHT) artistMatch;
          titleScore = mulD e (toDouble e TITLE_WEIGHT) titleMatch;
          timeScore = mulD e (toDouble e TIME_WEIGHT) tm;
          sc = addD e (addD e artistScore titleScore) timeScore
      in if sc < 1 \<and> tm > 0 \<and> titleMatch > toDouble e (98 / 100)
            \<and> artistMatch > toDouble e (1 / 10)
            \<and> wholeMatches > 0 \<and> comparingMultipleArtists e x playObj
         then
           (let scoreBonus = mulD e artistMatch (toDouble e (5 / 10));
                scoreGapBonus = mulD e (subD e 1 artistMatch) (toDouble e (75 / 100));
                artistWholeMatchBonus =
                  max (max scoreBonus scoreGapBonus) (toDouble e (1 / 10));
                artistScore' =
                  mulD e (addD e (toDouble e ARTIST_WEIGHT) (toDouble e (5 / 100)))
                    (addD e artistMatch artistWholeMatchBonus)
            in addD e (addD e artistScore' titleScore) timeScore)
         else sc)"

definition existingScrobble :: "env \<Rightarrow> client \<Rightarrow> PlayObject \<Rightarrow> PlayObject option" where
  "existingScrobble e c playObj =
     (if \<not> checkExistingScrobbles c then None
      else
        (let (existingExactSubmitted, existingDataSubmitted) =
               findExistingSubmittedPlayObj e c playObj
         in case existingExactSubmitted of
              Some ex \<Rightarrow> Some (scrobble_s ex)
            | None \<Rightarrow>
                if length (recentScrobbles c) = 0 then None
                else find (\<lambda>x. score e x playObj \<ge> toDouble e DUP_SCORE_THRESHOLD)
                       (recentScrobbles c)))"

section \<open>Scrobbling and the queues\<close>

text \<open>
  \<^verbatim>\<open>scrobble\<close> as the worker calls it, without the option \<^verbatim>\<open>delay\<close>: it waits when the
  previous attempt is too recent, hands the play to \<^verbatim>\<open>doScrobble\<close>, and records the time of
  the attempt whether or not \<^verbatim>\<open>doScrobble\<close> throws.
\<close>

definition scrobble :: "env \<Rightarrow> client \<Rightarrow> PlayObject \<Rightarrow> (error + PlayObject) \<times> client" where
  "scrobble e c playObj =
     (let c1 = (if scrobbleDelay c \<noteq> 0
                then (let lastScrobbleDiff = now c - lastScrobbleAttempt c;
                          remainingDelay = scrobbleDelay c - lastScrobbleDiff
                      in if remainingDelay > 0 then sleep (scrobbleDelay c) c else c)
                else c);
          res = doScrobble e c1 playObj
      in (res, c1\<lparr>adapterCalls := adapterCalls c1 @ [playObj],
                  lastScrobbleAttempt := now c1\<rparr>))"

definition getLatestQueuePlayDate :: "client \<Rightarrow> dayjs option" where
  "getLatestQueuePlayDate c =
     (if length (queuedScrobbles c) = 0 then None
      else Some (playDate (data (play (last (queuedScrobbles c))))))"





text \<open>
  \<^verbatim>\<open>addDeadLetterScrobble\<close> with an error object: in the object literal the spread of
  \<^verbatim>\<open>data\<close> comes last, so the entry keeps the identifier of the queued scrobble and the
  fresh \<^verbatim>\<open>nanoid()\<close> is dropped. No \<^verbatim>\<open>lastRetry\<close> is set.
\<close>

definition addDeadLetterScrobble :: "env \<Rightarrow> QueuedScrobble \<Rightarrow> error \<Rightarrow> client \<Rightarrow> client" where
  "addDeadLetterScrobble e dat err c =
     (let eString = messageWithCauses e err;
          deadData = \<lparr>id_q = id_q dat, source = source dat, play = play dat,
                      retries = 0, error = eString, lastRetry = None\<rparr>;
          c1 = c\<lparr>nanoids := nanoids c + 1\<rparr>;
          c2 = c1\<lparr>deadLetterScrobbles :=
                    sortByOldestPlayDate play (deadLetterScrobbles c1 @ [deadData])\<rparr>
      in emitEvent (DeadLetter deadData) c2)"

section \<open>The worker loop\<close>

text \<open>
  One pass of the inner \<^verbatim>\<open>while (this.queuedScrobbles.length > 0)\<close> loop of
  \<^verbatim>\<open>doProcessing\<close>. The result is \<open>Inl\<close> of the thrown error when the pass throws, and the
  state is the one the throw leaves behind.
\<close>

definition attemptQueued :: "env \<Rightarrow> QueuedScrobble \<Rightarrow> client \<Rightarrow> (error + unit) \<times> client" where
  \<comment> \<open>the inner \<^verbatim>\<open>try\<close> / \<^verbatim>\<open>catch\<close> around \<^verbatim>\<open>this.scrobble\<close>\<close>
  "attemptQueued e currQueuedPlay c =
     (case scrobble e c (play currQueuedPlay) of
        (Inr scrobbledPlay, c1) \<Rightarrow>
          (Inr (),
           addScrobbledTrack e (play currQueuedPlay) scrobbledPlay
             (emitEvent (Scrobble (play currQueuedPlay)) c1))
      | (Inl err, c1) \<Rightarrow>
          if isNonShowStoppingUpstream err
          then (Inr (), addDeadLetterScrobble e currQueuedPlay err c1)
          else (Inl (Error ''Error occurred while trying to scrobble'' (Some err)),
                c1\<lparr>queuedScrobbles := currQueuedPlay # queuedScrobbles c1\<rparr>))"

definition refreshIfStale :: "env \<Rightarrow> client \<Rightarrow> (error + unit) \<times> client" where
  \<comment> \<open>refresh the upstream snapshot when it is older than the latest queued play\<close>
  "refreshIfStale e c =
     (case getLatestQueuePlayDate c of
        None \<Rightarrow> (Inr (), c)
      | Some latest \<Rightarrow>
          if unix (lastScrobbleCheck c) < unix latest then doRefresh e c else (Inr (), c))"

definition processQueued :: "env \<Rightarrow> client \<Rightarrow> (error + unit) \<times> client" where
  "processQueued e c =
     (case getLatestQueuePlayDate c of
        None \<Rightarrow> (Inl (TypeError ''getLatestQueuePlayDate() is undefined''), c)
      | Some latest \<Rightarrow>
          (case refreshIfStale e c of
             (Inl err, c1) \<Rightarrow> (Inl err, c1)
           | (Inr u, c1) \<Rightarrow>
               (case queuedScrobbles c1 of
                  [] \<Rightarrow> (Inl (TypeError ''currQueuedPlay is undefined''), c1)
                | currQueuedPlay # rest \<Rightarrow>
                    (let c2 = c1\<lparr>queuedScrobbles := rest\<rparr>;
                         (timeFrameValid, timeFrameValidLog) =
                            timeFrameIsValid e c2 (play currQueuedPlay)
                     in if timeFrameValid
                        then
                          (case alreadyScrobbled e c2 (play currQueuedPlay) of
                             Inl err \<Rightarrow> (Inl err, c2)
                           | Inr already \<Rightarrow>
                               if \<not> already
                               then
                                 (case attemptQueued e currQueuedPlay c2 of
                                    (Inl err, c3) \<Rightarrow> (Inl err, c3)
                                  | (Inr u, c3) \<Rightarrow>
                                      (Inr (), emitEvent (ScrobbleDequeued currQueuedPlay) c3))
                               else (Inr (), emitEvent (ScrobbleDequeued currQueuedPlay) c2))
                        else (Inr (), emitEvent (ScrobbleDequeued currQueuedPlay) c2)))))"

text \<open>Every pass that returns takes one entry off the queue, so the inner loop ends.\<close>

lemma doRefresh_queuedScrobbles:
  "doRefresh e c = (r, c') \<Longrightarrow> queuedScrobbles c' = queuedScrobbles c"
  by (auto simp: doRefresh_def set_recentScrobbles_def split: sum.splits)

lemma scrobble_queuedScrobbles:
  "scrobble e c p = (r, c') \<Longrightarrow> queuedScrobbles c' = queuedScrobbles c"
  by (auto simp: scrobble_def sleep_def Let_def split: if_splits)

lemma attemptQueued_queuedScrobbles:
  "attemptQueued e q c0 = (Inr u, c') \<Longrightarrow> queuedScrobbles c' = queuedScrobbles c0"
  by (auto simp: attemptQueued_def emitEvent_def addScrobbledTrack_def
        addDeadLetterScrobble_def Let_def
      split: prod.splits sum.splits if_splits dest: scrobble_queuedScrobbles)

lemma refreshIfStale_queuedScrobbles:
  "refreshIfStale e c = (r, c') \<Longrightarrow> queuedScrobbles c' = queuedScrobbles c"
  by (auto simp: refreshIfStale_def split: option.splits if_splits
      dest: doRefresh_queuedScrobbles)

lemma processQueued_shortens:
  assumes "processQueued e c = (Inr u, c1)"
  shows "length (queuedScrobbles c1) < length (queuedScrobbles c)"
proof -
  obtain r0 c0 where r0: "refreshIfStale e c = (r0, c0)"
    by fastforce
  have q0: "queuedScrobbles c0 = queuedScrobbles c"
    using r0 by (rule refreshIfStale_queuedScrobbles)
  show ?thesis
    using assms r0 q0
    by (auto simp: processQueued_def emitEvent_def Let_def
        split: option.splits sum.splits list.splits prod.splits if_splits
        dest!: attemptQueued_queuedScrobbles)
qed

function processQueue :: "env \<Rightarrow> client \<Rightarrow> (error + unit) \<times> client" where
  "processQueue e c =
     (if length (queuedScrobbles c) > 0
      then (case processQueued e c of
              (Inl err, c1) \<Rightarrow> (Inl err, c1)
            | (Inr u, c1) \<Rightarrow> processQueue e c1)
      else (Inr (), c))"
  by pat_completeness auto
termination
  by (relation "measure (\<lambda>(e, c). length (queuedScrobbles c))")
    (auto dest: processQueued_shortens [OF sym])

declare processQueue.simps [simp del]

definition shouldStopScrobbleProcessing :: "client \<Rightarrow> bool" where
  "shouldStopScrobbleProcessing c = (scrobbling c = False \<or> userScrobblingStopSignal c)"

definition doStopScrobbling :: "client \<Rightarrow> client" where
  "doStopScrobbling c =
     emitEvent (StatusChange ''Idle'') (c\<lparr>scrobbling := False, userScrobblingStopSignal := False\<rparr>)"

text \<open>
  The outer \<^verbatim>\<open>while (!this.shouldStopScrobbleProcessing())\<close> loop runs until another task
  raises the stop signal, which may never happen; it is given a number of passes, and
  \<open>None\<close> says that the loop was still running after them.
\<close>

fun workerLoop :: "env \<Rightarrow> nat \<Rightarrow> client \<Rightarrow> ((error + bool) \<times> client) option" where
  "workerLoop e 0 c = None"
| "workerLoop e (Suc n) c =
     (if shouldStopScrobbleProcessing c then Some (Inr True, doStopScrobbling c)
      else (case processQueue e c of
              (Inl err, c1) \<Rightarrow> Some (Inl err, c1)
            | (Inr u, c1) \<Rightarrow> workerLoop e n (otherTasks e (sleep (scrobbleSleep c1) c1))))"

definition doProcessing :: "env \<Rightarrow> nat \<Rightarrow> client \<Rightarrow> ((error + bool) \<times> client) option" where
  "doProcessing e n c =
     (if scrobbling c then Some (Inr True, c)
      else (case workerLoop e n
                   ((emitEvent (StatusChange ''Running'') c)\<lparr>scrobbling := True\<rparr>) of
              None \<Rightarrow> None
            | Some (Inl err, c1) \<Rightarrow>
                Some (Inl err, (emitEvent (StatusChange ''Idle'') c1)\<lparr>scrobbling := False\<rparr>)
            | Some (Inr b, c1) \<Rightarrow> Some (Inr b, c1)))"

section \<open>The dead letter queue\<close>

fun findIndex :: "('a \<Rightarrow> bool) \<Rightarrow> 'a list \<Rightarrow> nat option" where
  \<comment> \<open>\<^verbatim>\<open>Array.prototype.findIndex\<close>, with \<open>None\<close> for -1\<close>
  "findIndex P [] = None"
| "findIndex P (x # xs) = (if P x then Some 0 else map_option Suc (findIndex P xs))"

definition removeDeadLetterScrobble :: "string \<Rightarrow> client \<Rightarrow> (error + unit) \<times> client" where
  \<comment> \<open>with no such entry, the read of \<^verbatim>\<open>this.deadLetterScrobbles[-1].play\<close> throws\<close>
  "removeDeadLetterScrobble ident c =
     (case findIndex (\<lambda>x. id_q x = ident) (deadLetterScrobbles c) of
        None \<Rightarrow> (Inl (TypeError ''deadLetterScrobbles[index] is undefined''), c)
      | Some index \<Rightarrow>
          (Inr (),
           c\<lparr>deadLetterScrobbles :=
                take index (deadLetterScrobbles c) @ drop (Suc index) (deadLetterScrobbles c)\<rparr>))"

definition finishDeadLetterScrobble ::
  "string \<Rightarrow> client \<Rightarrow> (error + bool \<times> DeadLetterScrobble option) \<times> client" where
  \<comment> \<open>the end of \<^verbatim>\<open>processDeadLetterScrobble\<close>: remove the entry and return \<^verbatim>\<open>[true]\<close>\<close>
  "finishDeadLetterScrobble ident c =
     (case removeDeadLetterScrobble ident c of
        (Inl err, c1) \<Rightarrow> (Inl err, c1)
      | (Inr u, c1) \<Rightarrow> (Inr (True, None), c1))"

definition retryDeadLetterScrobble ::
  "env \<Rightarrow> nat \<Rightarrow> DeadLetterScrobble \<Rightarrow> client
    \<Rightarrow> (error + bool \<times> DeadLetterScrobble option) \<times> client" where
  \<comment> \<open>the \<^verbatim>\<open>try\<close> / \<^verbatim>\<open>catch\<close> / \<^verbatim>\<open>finally\<close> of \<^verbatim>\<open>processDeadLetterScrobble\<close>\<close>
  "retryDeadLetterScrobble e deadScrobbleIndex deadScrobble c =
     (case scrobble e c (play deadScrobble) of
        (Inr scrobbledPlay, c1) \<Rightarrow>
          finishDeadLetterScrobble (id_q deadScrobble)
            (sleep 1000
              (addScrobbledTrack e (play deadScrobble) scrobbledPlay
                (emitEvent (Scrobble (play deadScrobble)) c1)))
      | (Inl err, c1) \<Rightarrow>
          (let dead = deadScrobble\<lparr>retries := retries deadScrobble + 1,
                                     error := messageWithCauses e err,
                                     lastRetry := Some (now c1)\<rparr>
           in (Inr (False, Some dead),
               sleep 1000
                 (c1\<lparr>deadLetterScrobbles :=
                       (deadLetterScrobbles c1)[deadScrobbleIndex := dead]\<rparr>))))"

definition processDeadLetterScrobble ::
  "env \<Rightarrow> string \<Rightarrow> client \<Rightarrow> (error + bool \<times> DeadLetterScrobble option) \<times> client" where
  "processDeadLetterScrobble e ident c =
     (let deadScrobbleIndex = findIndex (\<lambda>x. id_q x = ident) (deadLetterScrobbles c);
          deadScrobble = map_option (\<lambda>i. deadLetterScrobbles c ! i) deadScrobbleIndex
      in if \<not> isReady c then (Inr (False, deadScrobble), c)
         else
           (case refreshIfStale e c of
              (Inl err, c1) \<Rightarrow> (Inl err, c1)
            | (Inr u, c1) \<Rightarrow>
                (case deadScrobbleIndex of
                   None \<Rightarrow> (Inl (TypeError ''deadScrobble is undefined''), c1)
                 | Some i \<Rightarrow>
                     (let dead = deadLetterScrobbles c ! i;
                          (timeFrameValid, timeFrameValidLog) = timeFrameIsValid e c1 (play dead)
                      in if timeFrameValid
                         then
                           (case alreadyScrobbled e c1 (play dead) of
                              Inl err \<Rightarrow> (Inl err, c1)
                            | Inr already \<Rightarrow>
                                if \<not> already then retryDeadLetterScrobble e i dead c1
                                else finishDeadLetterScrobble ident c1)
                         else finishDeadLetterScrobble ident c1))))"

text \<open>A call of \<^verbatim>\<open>processDeadLetterScrobble\<close> never makes the dead letter queue longer.\<close>

lemma findIndex_Some_less: "findIndex P xs = Some i \<Longrightarrow> i < length xs"
  by (induction xs arbitrary: i) (auto split: if_splits)

lemma doRefresh_deadLetterScrobbles:
  "doRefresh e c = (r, c') \<Longrightarrow> deadLetterScrobbles c' = deadLetterScrobbles c"
  by (auto simp: doRefresh_def set_recentScrobbles_def split: sum.splits)

lemma refreshIfStale_deadLetterScrobbles:
  "refreshIfStale e c = (r, c') \<Longrightarrow> deadLetterScrobbles c' = deadLetterScrobbles c"
  by (auto simp: refreshIfStale_def split: option.splits if_splits
      dest: doRefresh_deadLetterScrobbles)

lemma scrobble_deadLetterScrobbles:
  "scrobble e c p = (r, c') \<Longrightarrow> deadLetterScrobbles c' = deadLetterScrobbles c"
  by (auto simp: scrobble_def sleep_def Let_def split: if_splits)

lemma finishDeadLetterScrobble_length:
  "finishDeadLetterScrobble ident c = (r, c')
   \<Longrightarrow> length (deadLetterScrobbles c') \<le> length (deadLetterScrobbles c)"
  by (auto simp: finishDeadLetterScrobble_def removeDeadLetterScrobble_def
      split: option.splits)

lemma retryDeadLetterScrobble_length:
  assumes "retryDeadLetterScrobble e i d c = (r, c')"
  shows "length (deadLetterScrobbles c') \<le> length (deadLetterScrobbles c)"
proof (cases "scrobble e c (play d)")
  case (Pair res c1)
  have same: "deadLetterScrobbles c1 = deadLetterScrobbles c"
    using Pair by (rule scrobble_deadLetterScrobbles)
  show ?thesis
  proof (cases res)
    case (Inl err)
    then show ?thesis
      using assms Pair same by (auto simp: retryDeadLetterScrobble_def sleep_def Let_def)
  next
    case (Inr scrobbledPlay)
    then have "finishDeadLetterScrobble (id_q d)
                 (sleep 1000 (addScrobbledTrack e (play d) scrobbledPlay
                    (emitEvent (Scrobble (play d)) c1))) = (r, c')"
      using assms Pair by (simp add: retryDeadLetterScrobble_def)
    from finishDeadLetterScrobble_length [OF this] show ?thesis
      using same by (simp add: sleep_def addScrobbledTrack_def emitEvent_def)
  qed
qed

lemma processDeadLetterScrobble_length:
  assumes "processDeadLetterScrobble e ident c = (r, c')"
  shows "length (deadLetterScrobbles c') \<le> length (deadLetterScrobbles c)"
proof (cases "isReady c")
  case False
  then show ?thesis
    using assms by (simp add: processDeadLetterScrobble_def Let_def)
next
  case True
  obtain r0 c0 where r0: "refreshIfStale e c = (r0, c0)"
    by fastforce
  have same: "deadLetterScrobbles c0 = deadLetterScrobbles c"
    using r0 by (rule refreshIfStale_deadLetterScrobbles)
  show ?thesis
    using assms True r0 same
    by (auto simp: processDeadLetterScrobble_def Let_def
        split: sum.splits option.splits prod.splits if_splits
        dest: finishDeadLetterScrobble_length retryDeadLetterScrobble_length)
qed

text \<open>
  The \<^verbatim>\<open>for ... of\<close> loop of \<^verbatim>\<open>processDeadLetterQueue\<close> walks the array that
  \<^verbatim>\<open>processDeadLetterScrobble\<close> changes in place: the array iterator holds an index
  \<open>i\<close>, reads the element at \<open>i\<close> of the array as it is then, and stops when \<open>i\<close> has
  reached the current length.
\<close>

function deadLetterLoop ::
  "env \<Rightarrow> nat \<Rightarrow> nat \<Rightarrow> string list \<Rightarrow> client \<Rightarrow> (error + string list) \<times> client" where
  "deadLetterLoop e R i removedIds c =
     (if i < length (deadLetterScrobbles c)
      then
        (let deadScrobble = deadLetterScrobbles c ! i
         in if retries deadScrobble < R
            then
              (case processDeadLetterScrobble e (id_q deadScrobble) c of
                 (Inl err, c1) \<Rightarrow> (Inl err, c1)
               | (Inr (scrobbled, dead), c1) \<Rightarrow>
                   deadLetterLoop e R (i + 1)
                     (if scrobbled then removedIds @ [id_q deadScrobble] else removedIds) c1)
            else deadLetterLoop e R (i + 1) removedIds c)
      else (Inr removedIds, c))"
  by pat_completeness auto
termination
  by (relation "measure (\<lambda>(e, R, i, removedIds, c). length (deadLetterScrobbles c) - i)")
    (auto dest!: processDeadLetterScrobble_length [OF sym])

declare deadLetterLoop.simps [simp del]

definition retryLimit :: "nat option \<Rightarrow> ClientData \<Rightarrow> nat" where
  \<comment> \<open>\<^verbatim>\<open>attemptWithRetries ?? deadLetterRetries\<close>, the option defaulting to 1\<close>
  "retryLimit attemptWithRetries cfg =
     (case attemptWithRetries of
        Some n \<Rightarrow> n
      | None \<Rightarrow> (case deadLetterRetries cfg of Some n \<Rightarrow> n | None \<Rightarrow> 1))"

text \<open>
  \<^verbatim>\<open>processDeadLetterQueue\<close> returns at once on an empty queue. Otherwise it first takes
  the option out of \<^verbatim>\<open>this.config.data\<close>, with no default for the data themselves: for a
  configuration without data the destructuring throws.
\<close>

definition processDeadLetterQueue ::
  "env \<Rightarrow> nat option \<Rightarrow> client \<Rightarrow> (error + unit) \<times> client" where
  "processDeadLetterQueue e attemptWithRetries c =
     (if length (deadLetterScrobbles c) = 0 then (Inr (), c)
      else
        (case config_data c of
           None \<Rightarrow> (Inl (TypeError ''this.config.data is undefined''), c)
         | Some cfg \<Rightarrow>
             (let R = retryLimit attemptWithRetries cfg;
                  processable = filter (\<lambda>x. retries x < R) (deadLetterScrobbles c)
              in if length processable = 0 then (Inr (), c)
                 else (case deadLetterLoop e R 0 [] c of
                         (Inl err, c1) \<Rightarrow> (Inl err, c1)
                       | (Inr removedIds, c1) \<Rightarrow> (Inr (), c1)))))"

section \<open>Plays from the Spotify API\<close>

text \<open>
  The objects of the Spotify Web API that \<^verbatim>\<open>SpotifySource.formatPlayObj\<close> reads. A field
  that the code reads with a default, or that may be \<^verbatim>\<open>null\<close>, is an \<open>option\<close>.
  An object with the key \<^verbatim>\<open>played_at\<close> is a play history object, another one with the
  key \<^verbatim>\<open>is_playing\<close> is a currently playing object.
\<close>

record ArtistObjectSimplified =
  id_a :: string
  name_a :: string

record AlbumObjectSimplified =
  name_al :: string
  artists_al :: "ArtistObjectSimplified list option"

record TrackObjectFull =
  artists_t :: "ArtistObjectSimplified list option"
  name_t :: string
  id_t :: string
  duration_ms :: real
  album_t :: "AlbumObjectSimplified option"
  external_urls_spotify :: "string option"

record UserDevice =
  id_d :: "string option"
  name_d :: "string option"

record PlayHistoryObject =
  track_h :: TrackObjectFull
  played_at :: string

record CurrentlyPlayingObject =
  is_playing :: bool
  progress_ms :: "real option"
  timestamp :: int
  device :: "UserDevice option"
  item :: "TrackObjectFull option"

datatype SpotifyObject =
    History PlayHistoryObject
  | Playing CurrentlyPlayingObject
  | Unrecognised

text \<open>
  The helpers of \<^verbatim>\<open>formatPlayObj\<close> that are not in its file: \<open>parseDate\<close> is \<^verbatim>\<open>dayjs\<close>
  on the text of \<^verbatim>\<open>played_at\<close>, \<open>combineDeviceId\<close> is \<^verbatim>\<open>combinePartsToString\<close> on the
  shortened device id and the device name, and \<open>noDevice\<close> is the text
  \<^verbatim>\<open>${NO_DEVICE}-${NO_USER}\<close>.
\<close>

record spotifyEnv =
  parseDate :: "string \<Rightarrow> dayjs"
  combineDeviceId :: "string option \<Rightarrow> string option \<Rightarrow> string option"
  noDevice :: string

definition trackArtistsOr :: "TrackObjectFull \<Rightarrow> ArtistObjectSimplified list" where
  \<comment> \<open>\<^verbatim>\<open>artists: art = []\<close>\<close>
  "trackArtistsOr t = (case artists_t t of None \<Rightarrow> [] | Some as \<Rightarrow> as)"

definition albumArtistsOr :: "AlbumObjectSimplified option \<Rightarrow> ArtistObjectSimplified list" where
  \<comment> \<open>\<^verbatim>\<open>const {artists: albumArtists = []} = album || {}\<close>\<close>
  "albumArtistsOr alb =
     (case alb of None \<Rightarrow> [] | Some a \<Rightarrow> (case artists_al a of None \<Rightarrow> [] | Some as \<Rightarrow> as))"

definition buildPlay ::
  "spotifyEnv \<Rightarrow> bool \<Rightarrow> ArtistObjectSimplified list \<Rightarrow> AlbumObjectSimplified option
    \<Rightarrow> string \<Rightarrow> real \<Rightarrow> dayjs \<Rightarrow> string \<Rightarrow> string option \<Rightarrow> real option
    \<Rightarrow> string option \<Rightarrow> PlayObject" where
  \<comment> \<open>\<^verbatim>\<open>formatPlayObj\<close> from the destructuring of \<^verbatim>\<open>album\<close> on\<close>
  "buildPlay se newFromSrc arts alb nm dur_ms playedAt ident url playbackPosition devId =
     (let albumName = map_option name_al alb;
          albumArts = albumArtistsOr alb;
          trackArtistIds = map id_a arts;
          actualAlbumArtists =
            (if length (filter (\<lambda>x. id_a x \<notin> set trackArtistIds) albumArts) > 0
             then albumArts else [])
      in \<lparr>data = \<lparr>track = nm,
                   artists = map name_a arts,
                   albumArtists = map name_a actualAlbumArtists,
                   album = albumName,
                   duration = Some (dur_ms / 1000),
                   playDate = playedAt\<rparr>,
          meta = \<lparr>source_meta = Some ''Spotify'',
                   deviceId = Some (case devId of None \<Rightarrow> noDevice se | Some d \<Rightarrow> d),
                   trackId = Some ident,
                   trackProgressPosition = playbackPosition,
                   newFromSource = newFromSrc,
                   url_web = url\<rparr>\<rparr>)"

text \<open>
  In the branch for a currently playing object the play date is
  \<^verbatim>\<open>dayjs(dayjs(timestamp).toISOString())\<close>, the instant \<^verbatim>\<open>timestamp\<close> itself; a missing
  \<^verbatim>\<open>item\<close> or list of artists makes a property read throw there.
\<close>

definition formatPlayObj :: "spotifyEnv \<Rightarrow> SpotifyObject \<Rightarrow> bool option \<Rightarrow> error + PlayObject" where
  "formatPlayObj se obj newFromSourceOpt =
     (let newFromSrc = (case newFromSourceOpt of None \<Rightarrow> False | Some b \<Rightarrow> b)
      in case obj of
           History h \<Rightarrow>
             (let t = track_h h
              in Inr (buildPlay se newFromSrc (trackArtistsOr t)
                        (album_t t) (name_t t) (duration_ms t) (parseDate se (played_at h))
                        (id_t t) (external_urls_spotify t) None None))
         | Playing p \<Rightarrow>
             (case item p of
                None \<Rightarrow> Inl (TypeError ''item is null'')
              | Some t \<Rightarrow>
                  (case artists_t t of
                     None \<Rightarrow> Inl (TypeError ''artists is undefined'')
                   | Some as \<Rightarrow>
                       Inr (buildPlay se newFromSrc as (album_t t) (name_t t) (duration_ms t)
                              (timestamp p) (id_t t) (external_urls_spotify t)
                              (Some (case progress_ms p of None \<Rightarrow> 0 | Some ms \<Rightarrow> ms / 1000))
                              (case device p of
                                 None \<Rightarrow> combineDeviceId se None None
                               | Some d \<Rightarrow> combineDeviceId se (id_d d) (name_d d)))))
         | Unrecognised \<Rightarrow>
             Inl (Error ''Could not determine format of spotify response data'' None))"

definition responseTrack :: "SpotifyObject \<Rightarrow> TrackObjectFull option" where
  \<comment> \<open>the track of a response: \<^verbatim>\<open>obj.track\<close> or \<^verbatim>\<open>obj.item\<close>\<close>
  "responseTrack obj =
     (case obj of History h \<Rightarrow> Some (track_h h) | Playing p \<Rightarrow> item p | Unrecognised \<Rightarrow> None)"

section \<open>Example collaborators and values\<close>

text \<open>
  The rounding of a real number to a double for the examples: round to nearest with 53
  significant bits, ties to the even significand, and the fixed spacing of the
  subnormal numbers below \<open>2 ^ -1022\<close>. \<open>binade x\<close> is the exponent \<open>k\<close> with
  \<open>2 ^ k \<le> x < 2 ^ (k + 1)\<close>. Numbers beyond the largest double are not provided for.
\<close>

definition roundHalfEven :: "real \<Rightarrow> int" where
  "roundHalfEven x =
     (let f = \<lfloor>x\<rfloor>; r = x - of_int f
      in if r < 1 / 2 then f else if 1 / 2 < r then f + 1
         else if even f then f else f + 1)"

fun scaleUp :: "nat \<Rightarrow> real \<Rightarrow> int" where
  "scaleUp 0 x = 0"
| "scaleUp (Suc n) x = (if 1 \<le> x then 0 else scaleUp n (2 * x) - 1)"

fun scaleDown :: "nat \<Rightarrow> real \<Rightarrow> int" where
  "scaleDown 0 x = 0"
| "scaleDown (Suc n) x = (if x < 2 then 0 else scaleDown n (x / 2) + 1)"

definition binade :: "real \<Rightarrow> int" where
  "binade x = (if 1 \<le> x then scaleDown 1023 x else max (scaleUp 1074 x) (- 1022))"

definition ulp :: "real \<Rightarrow> real" where
  "ulp x = (let k = binade x - 52 in if 0 \<le> k then 2 ^ nat k else 1 / 2 ^ nat (- k))"

definition binary64 :: "real \<Rightarrow> real" where
  "binary64 x =
     (if x = 0 then 0
      else if 0 < x then of_int (roundHalfEven (x / ulp x)) * ulp x
      else - (of_int (roundHalfEven (- x / ulp (- x))) * ulp (- x)))"

text \<open>
  Modelled from the spec: \<^verbatim>\<open>comparingMultipleArtists\<close> of \<^verbatim>\<open>utils\<close> for the examples.
  The spec gives as the reason for the multi-artist bonus that one side often reports
  only the primary artist while the other reports all, and in its first scenario the
  bonus makes a play with one artist a duplicate of a scrobble with two; the comment in
  \<^verbatim>\<open>existingScrobble\<close> has the same example. So the helper is taken to hold when either
  play has more than one artist.
\<close>

definition severalArtistsCompared :: "PlayObject \<Rightarrow> PlayObject \<Rightarrow> bool" where
  "severalArtistsCompared existing candidate =
     (1 < length (artists (data existing)) \<or> 1 < length (artists (data candidate)))"

text \<open>
  A concrete set of collaborators and a concrete client, on which the model is run in the
  examples below. The temporal comparison calls play dates EXACT when equal, CLOSE within
  ten seconds and FUZZY within a minute; the scrobble adapter accepts every play.
\<close>

definition exampleEnv :: env where
  "exampleEnv =
     \<lparr>comparePlayTemporally =
        (\<lambda>a b. let d = \<bar>playDate (data a) - playDate (data b)\<bar>
                in if d = 0 then TA_EXACT else if d \<le> 10000 then TA_CLOSE
                   else if d \<le> 60000 then TA_FUZZY else TA_NONE),
      playObjDataMatch =
        (\<lambda>a b. track (data a) = track (data b) \<and> artists (data a) = artists (data b)
                \<and> album (data a) = album (data b)),
      compareScrobbleTracks = (\<lambda>a b. if track (data a) = track (data b) then 100 else 0),
      compareScrobbleArtists =
        (\<lambda>a b. if artists (data a) = artists (data b) then 100 else 50),
      normalizeStr = (\<lambda>s. s),
      describeTooOld = (\<lambda>d oldest. ''occurred before the oldest scrobble''),
      refreshScrobbles =
        (\<lambda>c. Inr \<lparr>r_recentScrobbles = recentScrobbles c,
                    r_oldestScrobbleTime = oldestScrobbleTime c,
                    r_newestScrobbleTime = newestScrobbleTime c,
                    r_lastScrobbleCheck = now c,
                    r_scrobbledPlayObjs = scrobbledPlayObjs c\<rparr>),
      alreadyScrobbled = (\<lambda>c p. Inr False),
      doScrobble = (\<lambda>c p. Inr p),
      fixedSizeListAdd = (\<lambda>n x xs. take n (x # xs)),
      messageWithCauses =
        (\<lambda>err. case err of UpstreamError m s c \<Rightarrow> m | Error m c \<Rightarrow> m | TypeError m \<Rightarrow> m),
      nanoid = (\<lambda>n. replicate (Suc n) (CHR ''n'')),
      otherTasks = (\<lambda>c. c),
      comparingMultipleArtists = severalArtistsCompared,
      toDouble = binary64\<rparr>"

definition examplePlay :: "string \<Rightarrow> string list \<Rightarrow> dayjs \<Rightarrow> PlayObject" where
  "examplePlay t as d =
     \<lparr>data = \<lparr>track = t, artists = as, albumArtists = [], album = None, duration = None,
               playDate = d\<rparr>,
      meta = \<lparr>source_meta = Some ''Spotify'', deviceId = None, trackId = None,
               trackProgressPosition = None, newFromSource = False, url_web = None\<rparr>\<rparr>"

definition exampleClient :: client where
  "exampleClient =
     \<lparr>initState = INITIALIZED, requiresAuth = False, authed = False,
      MAX_STORED_SCROBBLES = 40, recentScrobbles = [], scrobbledPlayObjs = [],
      newestScrobbleTime = None, oldestScrobbleTime = None, tracksScrobbled = 0,
      lastScrobbleCheck = 0, lastScrobbleAttempt = 0, checkExistingScrobbles = True,
      scrobbleDelay = 1000, scrobbleSleep = 2000, scrobbling = True,
      userScrobblingStopSignal = False, queuedScrobbles = [], deadLetterScrobbles = [],
      config_data = Some \<lparr>deadLetterRetries = None\<rparr>, emitted = [], adapterCalls = [],
      now = 5000, nanoids = 0\<rparr>"

definition exampleQueued :: QueuedScrobble where
  "exampleQueued =
     \<lparr>id_q = ''n'', source = ''spotify'',
      play = examplePlay ''Sonora'' [''The Bongo Hop''] 1000\<rparr>"

definition rateLimited :: error where
  "rateLimited = UpstreamError ''rate limited'' False None"

definition rejected :: error where
  "rejected = UpstreamError ''rejected'' True None"

definition exampleDead :: "string \<Rightarrow> nat \<Rightarrow> dayjs \<Rightarrow> DeadLetterScrobble" where
  "exampleDead ident n d =
     \<lparr>id_q = ident, source = ''spotify'', play = examplePlay ''Sonora'' [''The Bongo Hop''] d,
      retries = n, error = ''rate limited'', lastRetry = None\<rparr>"

definition exampleSpotifyEnv :: spotifyEnv where
  "exampleSpotifyEnv =
     \<lparr>parseDate = (\<lambda>s. int (length s)),
      combineDeviceId = (\<lambda>i n. (case i of None \<Rightarrow> n | Some x \<Rightarrow> Some x)),
      noDevice = ''NoDevice-NoUser''\<rparr>"

section \<open>Properties of the timeframe check\<close>

text \<open>
  Claim C10. While the client has no oldest scrobble time, \<^verbatim>\<open>timeFrameIsValid\<close> answers
  true with the empty log for every play, whatever its play date.
\<close>

theorem timeFrameIsValid_no_snapshot:
  "timeFrameIsValid e (c\<lparr>oldestScrobbleTime := None\<rparr>) playObj = (True, [])"
  by (simp add: timeFrameIsValid_def)

section \<open>Properties of the existing-scrobble check\<close>

text \<open>
  Claim C5. In the scoring of one recent scrobble against the play, the time subscore is
  1 when the temporal comparison of the two play dates is EXACT or CLOSE, 0.6 when it is
  FUZZY, and 0 otherwise.
\<close>

theorem timeMatch_by_accuracy:
  "timeMatch e x playObj =
     (case comparePlayTemporally e x playObj of
        TA_EXACT \<Rightarrow> 1 | TA_CLOSE \<Rightarrow> 1 | TA_FUZZY \<Rightarrow> 6 / 10 | TA_NONE \<Rightarrow> 0)"
  by (simp add: timeMatch_def temporalAccuracyIsAtLeast_def Let_def
      split: TemporalAccuracy.splits)

text \<open>
  Claim C7. With \<^verbatim>\<open>checkExistingScrobbles\<close> false, \<^verbatim>\<open>existingScrobble\<close> returns
  \<^verbatim>\<open>undefined\<close> for every play, whatever the stored scrobbles and the recent scrobbles
  hold and whatever the comparison functions would answer.
\<close>

theorem existingScrobble_check_disabled:
  "existingScrobble e
     (c\<lparr>checkExistingScrobbles := False, scrobbledPlayObjs := submitted,
        recentScrobbles := recent\<rparr>) playObj = None"
  by (simp add: existingScrobble_def)










lemma find_filter:
  "find P (filter Q xs) = find (\<lambda>x. Q x \<and> P x) xs"
  by (induction xs) auto

lemma find_None_list_ex: "(find P xs = None) = (\<not> list_ex P xs)"
  by (induction xs) auto

text \<open>
  Claim C6, as the code has it. With no recent scrobbles, \<^verbatim>\<open>existingScrobble\<close> returns
  \<^verbatim>\<open>undefined\<close> provided that no stored scrobble of the client matches the play in its
  data with a play date that is at least CLOSE. When the check is enabled and there is
  such a stored scrobble, the response of the first one is returned.
\<close>

theorem existingScrobble_empty_recent:
  "(\<not> list_ex (\<lambda>x. playObjDataMatch e playObj (play_s x)
                     \<and> temporalAccuracyIsAtLeast TA_CLOSE
                          (comparePlayTemporally e (play_s x) playObj))
          (scrobbledPlayObjs c)
      \<longrightarrow> existingScrobble e (c\<lparr>recentScrobbles := []\<rparr>) playObj = None)
   \<and> (checkExistingScrobbles c
      \<longrightarrow> existingScrobble e (c\<lparr>recentScrobbles := []\<rparr>) playObj =
            map_option scrobble_s
              (find (\<lambda>x. playObjDataMatch e playObj (play_s x)
                        \<and> temporalAccuracyIsAtLeast TA_CLOSE
                             (comparePlayTemporally e (play_s x) playObj))
                 (scrobbledPlayObjs c)))"
proof -
  let ?close = "\<lambda>x. temporalAccuracyIsAtLeast TA_CLOSE
                       (comparePlayTemporally e (play_s x) playObj)"
  let ?match = "\<lambda>x. playObjDataMatch e playObj (play_s x)"
  let ?stored = "find (\<lambda>x. ?match x \<and> ?close x) (scrobbledPlayObjs c)"
  have exact: "fst (findExistingSubmittedPlayObj e (c\<lparr>recentScrobbles := []\<rparr>) playObj)
      = ?stored"
    by (simp add: findExistingSubmittedPlayObj_def Let_def find_filter [symmetric])
  have result: "existingScrobble e (c\<lparr>recentScrobbles := []\<rparr>) playObj =
      (if checkExistingScrobbles c then map_option scrobble_s ?stored else None)"
    using exact by (simp add: existingScrobble_def case_prod_beta split: option.splits)
  show ?thesis
    by (simp add: result find_None_list_ex [symmetric])
qed

text \<open>
  Two instances. The client has scrobbled the same title long before, so the stored
  scrobble matches in its data but not in its play date, and nothing is found. The
  client has scrobbled the play itself, and the response that the service gave then is
  returned.
\<close>

theorem existingScrobble_empty_recent_witness:
  "existingScrobble exampleEnv
     (exampleClient
        \<lparr>scrobbledPlayObjs :=
           [\<lparr>play_s = examplePlay ''Sonora'' [''The Bongo Hop''] 1000,
             scrobble_s = examplePlay ''Sonora'' [''The Bongo Hop''] 1000\<rparr>],
         recentScrobbles := []\<rparr>)
     (examplePlay ''Sonora'' [''The Bongo Hop''] 500000) = None
   \<and> existingScrobble exampleEnv
     (exampleClient
        \<lparr>scrobbledPlayObjs :=
           [\<lparr>play_s = examplePlay ''Sonora'' [''The Bongo Hop''] 1000,
             scrobble_s = examplePlay ''Sonora (Remastered)'' [''Bongo Hop''] 1000\<rparr>],
         recentScrobbles := []\<rparr>)
     (examplePlay ''Sonora'' [''The Bongo Hop''] 1000)
     = Some (examplePlay ''Sonora (Remastered)'' [''Bongo Hop''] 1000)"
  using existingScrobble_empty_recent [of exampleEnv
      "examplePlay ''Sonora'' [''The Bongo Hop''] 500000"
      "exampleClient
        \<lparr>scrobbledPlayObjs :=
           [\<lparr>play_s = examplePlay ''Sonora'' [''The Bongo Hop''] 1000,
             scrobble_s = examplePlay ''Sonora'' [''The Bongo Hop''] 1000\<rparr>]\<rparr>"]
    existingScrobble_empty_recent [of exampleEnv
      "examplePlay ''Sonora'' [''The Bongo Hop''] 1000"
      "exampleClient
        \<lparr>scrobbledPlayObjs :=
           [\<lparr>play_s = examplePlay ''Sonora'' [''The Bongo Hop''] 1000,
             scrobble_s = examplePlay ''Sonora (Remastered)'' [''Bongo Hop''] 1000\<rparr>]\<rparr>"]
  by (simp add: exampleEnv_def exampleClient_def examplePlay_def temporalAccuracyIsAtLeast_def)

text \<open>
  The claim as stated fails: with no recent scrobbles and the check enabled, a play that
  the client has itself scrobbled at the same play date is found among the stored
  scrobbles, and the stored response is returned.
\<close>

theorem existingScrobble_empty_recent_counterexample:
  "existingScrobble exampleEnv
     (exampleClient
        \<lparr>checkExistingScrobbles := True,
         recentScrobbles := [],
         scrobbledPlayObjs :=
           [\<lparr>play_s = examplePlay ''Sonora'' [''The Bongo Hop''] 1000,
             scrobble_s = examplePlay ''Sonora'' [''The Bongo Hop''] 1000\<rparr>]\<rparr>)
     (examplePlay ''Sonora'' [''The Bongo Hop''] 1000)
   = Some (examplePlay ''Sonora'' [''The Bongo Hop''] 1000)"
  by (simp add: existingScrobble_def findExistingSubmittedPlayObj_def exampleEnv_def
      exampleClient_def examplePlay_def temporalAccuracyIsAtLeast_def)

section \<open>Properties of queueing\<close>



section \<open>Properties of the Spotify conversion\<close>

lemma buildPlay_albumArtists:
  "albumArtists (data (buildPlay se nfs arts alb nm dur playedAt ident url pos dev)) =
     (if list_all (\<lambda>a. id_a a \<in> set (map id_a arts)) (albumArtistsOr alb) then []
      else map name_a (albumArtistsOr alb))"
  by (auto simp: buildPlay_def Let_def filter_empty_conv list_all_iff)

text \<open>
  Claim C9. When \<^verbatim>\<open>formatPlayObj\<close> converts a response with track \<open>t\<close>, the album artists
  of the play are empty if the id of every album artist occurs among the ids of the track
  artists, and are the names of all album artists otherwise.
\<close>

theorem formatPlayObj_albumArtists:
  assumes "formatPlayObj se obj opts = Inr playObj"
    and "responseTrack obj = Some t"
  shows "albumArtists (data playObj) =
           (if \<forall>a \<in> set (albumArtistsOr (album_t t)).
                 id_a a \<in> set (map id_a (trackArtistsOr t)) then []
            else map name_a (albumArtistsOr (album_t t)))"
proof (cases obj)
  case (History h)
  then have t: "t = track_h h"
    using assms(2) by (simp add: responseTrack_def)
  show ?thesis
    using assms(1) History
    by (auto simp: formatPlayObj_def Let_def t buildPlay_albumArtists list_all_iff)
next
  case (Playing p)
  then have t: "item p = Some t"
    using assms(2) by (simp add: responseTrack_def)
  show ?thesis
    using assms(1) Playing t
    by (auto simp: formatPlayObj_def Let_def buildPlay_albumArtists list_all_iff
          trackArtistsOr_def
        split: option.splits)
next
  case Unrecognised
  then show ?thesis
    using assms(2) by (simp add: responseTrack_def)
qed

text \<open>
  An instance: the album has the track artist and one more artist, and both names are
  kept.
\<close>

theorem formatPlayObj_albumArtists_witness:
  "albumArtists (data (projr (formatPlayObj exampleSpotifyEnv
      (History \<lparr>track_h =
          \<lparr>artists_t = Some [\<lparr>id_a = ''a1'', name_a = ''The Bongo Hop''\<rparr>],
           name_t = ''Sonora'', id_t = ''t1'', duration_ms = 200000,
           album_t = Some \<lparr>name_al = ''Satingarona'',
                           artists_al = Some [\<lparr>id_a = ''a1'', name_a = ''The Bongo Hop''\<rparr>,
                                              \<lparr>id_a = ''a2'', name_a = ''Nidia Gongora''\<rparr>]\<rparr>,
           external_urls_spotify = None\<rparr>,
         played_at = ''2023-09-28T10:54:06Z''\<rparr>) None)))
   = [''The Bongo Hop'', ''Nidia Gongora'']"
proof -
  let ?t = "\<lparr>artists_t = Some [\<lparr>id_a = ''a1'', name_a = ''The Bongo Hop''\<rparr>],
           name_t = ''Sonora'', id_t = ''t1'', duration_ms = 200000,
           album_t = Some \<lparr>name_al = ''Satingarona'',
                           artists_al = Some [\<lparr>id_a = ''a1'', name_a = ''The Bongo Hop''\<rparr>,
                                              \<lparr>id_a = ''a2'', name_a = ''Nidia Gongora''\<rparr>]\<rparr>,
           external_urls_spotify = None\<rparr>"
  let ?obj = "History \<lparr>track_h = ?t, played_at = ''2023-09-28T10:54:06Z''\<rparr>"
  obtain playObj where p: "formatPlayObj exampleSpotifyEnv ?obj None = Inr playObj"
    by (simp add: formatPlayObj_def)
  have r: "responseTrack ?obj = Some ?t"
    by (simp add: responseTrack_def)
  show ?thesis
    using formatPlayObj_albumArtists [OF p r]
    by (simp add: p albumArtistsOr_def trackArtistsOr_def)
qed

section \<open>Properties of the worker loop\<close>

lemma timeFrameIsValid_queue [simp]:
  "timeFrameIsValid e (c\<lparr>queuedScrobbles := qs\<rparr>) p = timeFrameIsValid e c p"
  by (simp add: timeFrameIsValid_def)

lemma doRefresh_adapterCalls:
  "doRefresh e c = (r, c') \<Longrightarrow> adapterCalls c' = adapterCalls c"
  by (auto simp: doRefresh_def set_recentScrobbles_def split: sum.splits)

lemma refreshIfStale_adapterCalls:
  "refreshIfStale e c = (r, c') \<Longrightarrow> adapterCalls c' = adapterCalls c"
  by (auto simp: refreshIfStale_def split: option.splits if_splits
      dest: doRefresh_adapterCalls)

lemma getLatestQueuePlayDate_Cons:
  "queuedScrobbles c = q # rest \<Longrightarrow> \<exists>latest. getLatestQueuePlayDate c = Some latest"
  by (simp add: getLatestQueuePlayDate_def)

lemma processQueued_invalid:
  assumes "queuedScrobbles c = q # rest"
    and "refreshIfStale e c = (Inr u, c1)"
    and "\<not> fst (timeFrameIsValid e c1 (play q))"
  shows "processQueued e c =
           (Inr (), emitEvent (ScrobbleDequeued q) (c1\<lparr>queuedScrobbles := rest\<rparr>))"
proof -
  obtain latest where "getLatestQueuePlayDate c = Some latest"
    using assms(1) getLatestQueuePlayDate_Cons by blast
  moreover have "queuedScrobbles c1 = q # rest"
    using assms(1,2) by (simp add: refreshIfStale_queuedScrobbles)
  ultimately show ?thesis
    using assms(2,3)
    by (simp add: processQueued_def Let_def case_prod_beta)
qed

text \<open>
  Claim C8. For a client whose oldest scrobble time is \<open>oldest\<close>, \<^verbatim>\<open>timeFrameIsValid\<close>
  answers true exactly for the plays whose play date is after \<open>oldest\<close>. In a pass of
  the worker loop, let \<open>cr\<close> be the client after the refresh of the snapshot, if one was
  due, and \<open>q\<close> the entry taken from the queue: when the timeframe check fails for the play
  of \<open>q\<close> the pass only removes \<open>q\<close> from the queue and emits \<^verbatim>\<open>scrobbleDequeued\<close>; no
  play is handed to the adapter, and the stored scrobbles and the dead letter queue stay
  as they were.
\<close>

theorem timeFrame_invalid_dropped:
  "fst (timeFrameIsValid e (c\<lparr>oldestScrobbleTime := Some oldest\<rparr>) playObj)
     = (oldest < playDate (data playObj))
   \<and> (queuedScrobbles c = q # rest \<and> refreshIfStale e c = (Inr u, cr)
        \<and> \<not> fst (timeFrameIsValid e cr (play q))
      \<longrightarrow> processQueued e c =
            (Inr (), emitEvent (ScrobbleDequeued q) (cr\<lparr>queuedScrobbles := rest\<rparr>))
          \<and> adapterCalls (snd (processQueued e c)) = adapterCalls c
          \<and> scrobbledPlayObjs (snd (processQueued e c)) = scrobbledPlayObjs cr
          \<and> deadLetterScrobbles (snd (processQueued e c)) = deadLetterScrobbles c
          \<and> queuedScrobbles (snd (processQueued e c)) = rest)"
proof (intro conjI impI)
  show "fst (timeFrameIsValid e (c\<lparr>oldestScrobbleTime := Some oldest\<rparr>) playObj)
     = (oldest < playDate (data playObj))"
    by (simp add: timeFrameIsValid_def Let_def)
next
  assume a: "queuedScrobbles c = q # rest \<and> refreshIfStale e c = (Inr u, cr)
        \<and> \<not> fst (timeFrameIsValid e cr (play q))"
  then have r: "refreshIfStale e c = (Inr u, cr)"
    by simp
  note calls = refreshIfStale_adapterCalls [OF r]
  note dead = refreshIfStale_deadLetterScrobbles [OF r]
  show pq: "processQueued e c =
            (Inr (), emitEvent (ScrobbleDequeued q) (cr\<lparr>queuedScrobbles := rest\<rparr>))"
    using a by (simp add: processQueued_invalid)
  show "adapterCalls (snd (processQueued e c)) = adapterCalls c"
    by (simp add: pq emitEvent_def calls)
  show "scrobbledPlayObjs (snd (processQueued e c)) = scrobbledPlayObjs cr"
    by (simp add: pq emitEvent_def)
  show "deadLetterScrobbles (snd (processQueued e c)) = deadLetterScrobbles c"
    by (simp add: pq emitEvent_def dead)
  show "queuedScrobbles (snd (processQueued e c)) = rest"
    by (simp add: pq emitEvent_def)
qed

text \<open>
  An instance: the oldest scrobble known is at 2000 and the queued play is from 1000.
\<close>

theorem timeFrame_invalid_dropped_witness:
  "processQueued exampleEnv
     (exampleClient\<lparr>oldestScrobbleTime := Some 2000, lastScrobbleCheck := 3000,
        queuedScrobbles := [exampleQueued]\<rparr>)
   = (Inr (),
      exampleClient\<lparr>oldestScrobbleTime := Some 2000, lastScrobbleCheck := 3000,
        queuedScrobbles := [], emitted := [ScrobbleDequeued exampleQueued]\<rparr>)"
proof -
  let ?c = "exampleClient\<lparr>oldestScrobbleTime := Some 2000, lastScrobbleCheck := 3000,
        queuedScrobbles := [exampleQueued]\<rparr>"
  have q: "queuedScrobbles ?c = exampleQueued # []"
    by simp
  have r: "refreshIfStale exampleEnv ?c = (Inr (), ?c)"
    by (simp add: refreshIfStale_def getLatestQueuePlayDate_def exampleQueued_def
        examplePlay_def unix_def exampleClient_def)
  have v: "\<not> fst (timeFrameIsValid exampleEnv ?c (play exampleQueued))"
    by (simp add: timeFrameIsValid_def exampleQueued_def examplePlay_def)
  show ?thesis
    using timeFrame_invalid_dropped
        [where e = exampleEnv and c = ?c and q = exampleQueued and rest = "[]" and u = "()"
           and cr = ?c and oldest = 0 and playObj = "play exampleQueued"] q r v
    by (simp add: emitEvent_def exampleClient_def)
qed


lemma workerLoop_error:
  "\<not> shouldStopScrobbleProcessing c \<Longrightarrow> processQueue e c = (Inl x, c')
   \<Longrightarrow> workerLoop e (Suc n) c = Some (Inl x, c')"
  by simp

lemma processQueued_attempt:
  assumes "queuedScrobbles c = q # rest"
    and "refreshIfStale e c = (Inr u, cr)"
    and "fst (timeFrameIsValid e cr (play q))"
    and "alreadyScrobbled e (cr\<lparr>queuedScrobbles := rest\<rparr>) (play q) = Inr False"
  shows "processQueued e c =
           (case attemptQueued e q (cr\<lparr>queuedScrobbles := rest\<rparr>) of
              (Inl err, c3) \<Rightarrow> (Inl err, c3)
            | (Inr u, c3) \<Rightarrow> (Inr (), emitEvent (ScrobbleDequeued q) c3))"
proof -
  obtain latest where "getLatestQueuePlayDate c = Some latest"
    using assms(1) getLatestQueuePlayDate_Cons by blast
  moreover have "queuedScrobbles cr = q # rest"
    using assms(1,2) by (simp add: refreshIfStale_queuedScrobbles)
  ultimately show ?thesis
    using assms(2,3,4)
    by (simp add: processQueued_def Let_def case_prod_beta)
qed

text \<open>
  Claim C2. Consider a pass of the worker loop that takes \<open>q\<close> from the queue, finds its
  play in the timeframe and not yet scrobbled, and whose call of \<^verbatim>\<open>scrobble\<close> throws
  \<open>err\<close>, leaving the client \<open>cs\<close>. If \<open>err\<close> is an \<^verbatim>\<open>UpstreamError\<close> that is not a show
  stopper, the pass returns, \<open>q\<close> has been pushed onto the dead letter queue (with no
  retries and the message of \<open>err\<close>; the queue is then sorted again by play date), and the
  loop goes on with the rest of the queue. For every other error the pass puts \<open>q\<close> back
  at the front of the queue and throws an error with cause \<open>err\<close>, which leaves the inner
  and the outer loop; nothing is added to the dead letter queue.
\<close>

theorem scrobble_throws:
  assumes "queuedScrobbles c = q # rest"
    and "refreshIfStale e c = (Inr u, cr)"
    and "fst (timeFrameIsValid e cr (play q))"
    and "alreadyScrobbled e (cr\<lparr>queuedScrobbles := rest\<rparr>) (play q) = Inr False"
    and "scrobble e (cr\<lparr>queuedScrobbles := rest\<rparr>) (play q) = (Inl err, cs)"
  shows "if isNonShowStoppingUpstream err
         then fst (processQueued e c) = Inr ()
            \<and> deadLetterScrobbles (snd (processQueued e c)) =
                sortByOldestPlayDate play
                  (deadLetterScrobbles c
                     @ [\<lparr>id_q = id_q q, source = source q, play = play q, retries = 0,
                          error = messageWithCauses e err, lastRetry = None\<rparr>])
            \<and> queuedScrobbles (snd (processQueued e c)) = rest
            \<and> processQueue e c = processQueue e (snd (processQueued e c))
         else processQueued e c =
                (Inl (Error ''Error occurred while trying to scrobble'' (Some err)),
                 cs\<lparr>queuedScrobbles := q # rest\<rparr>)
            \<and> processQueue e c = processQueued e c
            \<and> deadLetterScrobbles cs = deadLetterScrobbles c
            \<and> (\<forall>n. \<not> shouldStopScrobbleProcessing c \<longrightarrow>
                  workerLoop e (Suc n) c =
                    Some (Inl (Error ''Error occurred while trying to scrobble'' (Some err)),
                          cs\<lparr>queuedScrobbles := q # rest\<rparr>))"
proof -
  let ?c2 = "cr\<lparr>queuedScrobbles := rest\<rparr>"
  have pq: "processQueued e c =
           (case attemptQueued e q ?c2 of
              (Inl err, c3) \<Rightarrow> (Inl err, c3)
            | (Inr u, c3) \<Rightarrow> (Inr (), emitEvent (ScrobbleDequeued q) c3))"
    using assms(1-4) by (rule processQueued_attempt)
  have qs: "queuedScrobbles cs = rest"
    using scrobble_queuedScrobbles [OF assms(5)] by simp
  have ds: "deadLetterScrobbles cs = deadLetterScrobbles c"
    using scrobble_deadLetterScrobbles [OF assms(5)]
      refreshIfStale_deadLetterScrobbles [OF assms(2)] by simp
  have nonempty: "0 < length (queuedScrobbles c)"
    using assms(1) by simp
  show ?thesis
  proof (cases "isNonShowStoppingUpstream err")
    case True
    have res: "processQueued e c =
        (Inr (), emitEvent (ScrobbleDequeued q) (addDeadLetterScrobble e q err cs))"
      using True assms(5) by (simp add: pq attemptQueued_def)
    have loop: "processQueue e c = processQueue e (snd (processQueued e c))"
      using nonempty by (simp add: processQueue.simps [of e c] res)
    show ?thesis
      using True loop
      by (simp add: res emitEvent_def addDeadLetterScrobble_def Let_def qs ds)
  next
    case False
    have res: "processQueued e c =
        (Inl (Error ''Error occurred while trying to scrobble'' (Some err)),
         cs\<lparr>queuedScrobbles := q # rest\<rparr>)"
      using False assms(5) by (simp add: pq attemptQueued_def qs)
    have loop: "processQueue e c = processQueued e c"
      using nonempty by (simp add: processQueue.simps [of e c] res)
    have outer: "\<forall>n. \<not> shouldStopScrobbleProcessing c \<longrightarrow>
                  workerLoop e (Suc n) c =
                    Some (Inl (Error ''Error occurred while trying to scrobble'' (Some err)),
                          cs\<lparr>queuedScrobbles := q # rest\<rparr>)"
      using loop res by (simp add: workerLoop_error)
    show ?thesis
      using False res loop ds outer by simp
  qed
qed


text \<open>
  Two instances, with an adapter that always answers with a rate limit error that is
  not a show stopper, and with one that always answers with a show stopper.
\<close>

theorem scrobble_throws_witness:
  "deadLetterScrobbles
     (snd (processQueued (exampleEnv\<lparr>doScrobble := \<lambda>c p. Inl rateLimited\<rparr>)
        (exampleClient\<lparr>lastScrobbleCheck := 3000, queuedScrobbles := [exampleQueued]\<rparr>)))
   = [\<lparr>id_q = ''n'', source = ''spotify'', play = play exampleQueued, retries = 0,
        error = ''rate limited'', lastRetry = None\<rparr>]
   \<and> queuedScrobbles
     (snd (processQueued (exampleEnv\<lparr>doScrobble := \<lambda>c p. Inl rateLimited\<rparr>)
        (exampleClient\<lparr>lastScrobbleCheck := 3000, queuedScrobbles := [exampleQueued]\<rparr>))) = []
   \<and> workerLoop (exampleEnv\<lparr>doScrobble := \<lambda>c p. Inl rejected\<rparr>) (Suc 0)
       (exampleClient\<lparr>lastScrobbleCheck := 3000, queuedScrobbles := [exampleQueued]\<rparr>)
     = Some (Inl (Error ''Error occurred while trying to scrobble'' (Some rejected)),
             exampleClient\<lparr>lastScrobbleCheck := 3000, queuedScrobbles := [exampleQueued],
               adapterCalls := [play exampleQueued], lastScrobbleAttempt := 5000\<rparr>)"
proof -
  let ?c = "exampleClient\<lparr>lastScrobbleCheck := 3000, queuedScrobbles := [exampleQueued]\<rparr>"
  let ?cs = "exampleClient\<lparr>lastScrobbleCheck := 3000, queuedScrobbles := [],
               adapterCalls := [play exampleQueued], lastScrobbleAttempt := 5000\<rparr>"
  let ?e1 = "exampleEnv\<lparr>doScrobble := \<lambda>c p. Inl rateLimited\<rparr>"
  let ?e2 = "exampleEnv\<lparr>doScrobble := \<lambda>c p. Inl rejected\<rparr>"
  have q: "queuedScrobbles ?c = exampleQueued # []"
    by simp
  have r: "refreshIfStale e ?c = (Inr (), ?c)" for e
    by (simp add: refreshIfStale_def getLatestQueuePlayDate_def exampleQueued_def
        examplePlay_def unix_def exampleClient_def)
  have v: "fst (timeFrameIsValid e ?c (play exampleQueued))" for e
    by (simp add: timeFrameIsValid_def exampleClient_def)
  have a1: "alreadyScrobbled ?e1 (?c\<lparr>queuedScrobbles := []\<rparr>) (play exampleQueued) = Inr False"
    and a2: "alreadyScrobbled ?e2 (?c\<lparr>queuedScrobbles := []\<rparr>) (play exampleQueued) = Inr False"
    by (simp_all add: exampleEnv_def)
  have s1: "scrobble ?e1 (?c\<lparr>queuedScrobbles := []\<rparr>) (play exampleQueued) = (Inl rateLimited, ?cs)"
    and s2: "scrobble ?e2 (?c\<lparr>queuedScrobbles := []\<rparr>) (play exampleQueued) = (Inl rejected, ?cs)"
    by (simp_all add: scrobble_def exampleClient_def Let_def)
  have stop: "\<not> shouldStopScrobbleProcessing ?c"
    by (simp add: shouldStopScrobbleProcessing_def exampleClient_def)
  have d: "deadLetterScrobbles ?c = []"
    by (simp add: exampleClient_def)
  have t1: "deadLetterScrobbles (snd (processQueued ?e1 ?c)) =
              sortByOldestPlayDate play
                (deadLetterScrobbles ?c
                   @ [\<lparr>id_q = id_q exampleQueued, source = source exampleQueued,
                        play = play exampleQueued, retries = 0,
                        error = messageWithCauses ?e1 rateLimited, lastRetry = None\<rparr>])
            \<and> queuedScrobbles (snd (processQueued ?e1 ?c)) = []"
    using scrobble_throws [OF q r v a1 s1] by (simp add: rateLimited_def)
  have t2: "workerLoop ?e2 (Suc 0) ?c =
              Some (Inl (Error ''Error occurred while trying to scrobble'' (Some rejected)),
                    ?cs\<lparr>queuedScrobbles := exampleQueued # []\<rparr>)"
    using scrobble_throws [OF q r v a2 s2] stop by (simp add: rejected_def)
  have ids: "id_q exampleQueued = ''n''" "source exampleQueued = ''spotify''"
    by (simp_all add: exampleQueued_def)
  have m': "messageWithCauses exampleEnv rateLimited = ''rate limited''"
    by (simp add: exampleEnv_def rateLimited_def)
  show ?thesis
    using t1 t2 by (simp add: m' d ids sortByOldestPlayDate_def del: workerLoop.simps)
qed


section \<open>Properties of the dead letter queue\<close>

lemma findIndex_distinct:
  "distinct (map f xs) \<Longrightarrow> i < length xs \<Longrightarrow> findIndex (\<lambda>x. f x = f (xs ! i)) xs = Some i"
proof (induction xs arbitrary: i)
  case Nil
  then show ?case by simp
next
  case (Cons x xs)
  show ?case
  proof (cases i)
    case 0
    then show ?thesis by simp
  next
    case (Suc j)
    then have "f x \<noteq> f (xs ! j)"
      using Cons.prems by auto
    then show ?thesis
      using Cons Suc by simp
  qed
qed

lemma set_without_nth:
  assumes "i < length xs" and "x \<in> set xs" and "x \<noteq> xs ! i"
  shows "x \<in> set (take i xs @ drop (Suc i) xs)"
proof -
  have "set xs = set (take i xs @ xs ! i # drop (Suc i) xs)"
    using assms(1) by (simp add: id_take_nth_drop [symmetric])
  then show ?thesis
    using assms(2,3) by auto
qed

lemma set_update_nth:
  assumes "i < length xs" and "x \<in> set xs" and "x \<noteq> xs ! i"
  shows "x \<in> set (xs[i := y])"
proof -
  have "set xs = set (take i xs @ xs ! i # drop (Suc i) xs)"
    using assms(1) by (simp add: id_take_nth_drop [symmetric])
  then show ?thesis
    using assms by (auto simp: upd_conv_take_nth_drop)
qed

lemma distinct_without_nth:
  assumes "distinct (map f xs)" and "i < length xs"
  shows "distinct (map f (take i xs @ drop (Suc i) xs))"
proof -
  have "distinct (map f (take i xs @ xs ! i # drop (Suc i) xs))"
    using assms by (simp add: id_take_nth_drop [symmetric])
  then show ?thesis
    by auto
qed

lemma drop_without_nth:
  "i < length xs \<Longrightarrow> drop (Suc i) (take i xs @ drop (Suc i) xs) = drop (Suc (Suc i)) xs"
  by (simp add: min_def)

lemma finishDeadLetterScrobble_at:
  assumes "findIndex (\<lambda>x. id_q x = ident) (deadLetterScrobbles c) = Some i"
  shows "finishDeadLetterScrobble ident c =
           (Inr (True, None),
            c\<lparr>deadLetterScrobbles :=
                 take i (deadLetterScrobbles c) @ drop (Suc i) (deadLetterScrobbles c)\<rparr>)"
  using assms by (simp add: finishDeadLetterScrobble_def removeDeadLetterScrobble_def)

lemma retryDeadLetterScrobble_fails:
  assumes "scrobble e c (play d) = (Inl err, cs)"
  shows "retryDeadLetterScrobble e i d c =
           (Inr (False, Some (d\<lparr>retries := retries d + 1, error := messageWithCauses e err,
                                 lastRetry := Some (now cs)\<rparr>)),
            sleep 1000
              (cs\<lparr>deadLetterScrobbles :=
                    (deadLetterScrobbles c)
                      [i := d\<lparr>retries := retries d + 1, error := messageWithCauses e err,
                               lastRetry := Some (now cs)\<rparr>]\<rparr>))"
  using assms scrobble_deadLetterScrobbles [OF assms]
  by (simp add: retryDeadLetterScrobble_def Let_def)

lemma retryDeadLetterScrobble_succeeds:
  assumes "scrobble e c (play d) = (Inr scrobbledPlay, cs)"
    and "findIndex (\<lambda>x. id_q x = id_q d) (deadLetterScrobbles c) = Some i"
  shows "retryDeadLetterScrobble e i d c =
           (Inr (True, None),
            (sleep 1000 (addScrobbledTrack e (play d) scrobbledPlay
                           (emitEvent (Scrobble (play d)) cs)))
              \<lparr>deadLetterScrobbles :=
                 take i (deadLetterScrobbles c) @ drop (Suc i) (deadLetterScrobbles c)\<rparr>)"
proof -
  let ?c = "sleep 1000 (addScrobbledTrack e (play d) scrobbledPlay
                           (emitEvent (Scrobble (play d)) cs))"
  have same: "deadLetterScrobbles ?c = deadLetterScrobbles c"
    using scrobble_deadLetterScrobbles [OF assms(1)]
    by (simp add: sleep_def addScrobbledTrack_def emitEvent_def)
  have "finishDeadLetterScrobble (id_q d) ?c =
          (Inr (True, None),
           ?c\<lparr>deadLetterScrobbles :=
                 take i (deadLetterScrobbles ?c) @ drop (Suc i) (deadLetterScrobbles ?c)\<rparr>)"
    using assms(2) same by (intro finishDeadLetterScrobble_at) simp
  then show ?thesis
    using assms(1) same by (simp add: retryDeadLetterScrobble_def)
qed

lemma processDeadLetterScrobble_ready:
  assumes "findIndex (\<lambda>x. id_q x = ident) (deadLetterScrobbles c) = Some i"
    and "isReady c"
    and "refreshIfStale e c = (Inr u, cr)"
  shows "processDeadLetterScrobble e ident c =
           (if fst (timeFrameIsValid e cr (play (deadLetterScrobbles c ! i)))
            then (case alreadyScrobbled e cr (play (deadLetterScrobbles c ! i)) of
                    Inl err \<Rightarrow> (Inl err, cr)
                  | Inr already \<Rightarrow>
                      if \<not> already
                      then retryDeadLetterScrobble e i (deadLetterScrobbles c ! i) cr
                      else finishDeadLetterScrobble ident cr)
            else finishDeadLetterScrobble ident cr)"
  using assms by (simp add: processDeadLetterScrobble_def Let_def case_prod_beta)


lemma scrobble_adapterCalls:
  "scrobble e c p = (r, c') \<Longrightarrow> adapterCalls c' = adapterCalls c @ [p]"
  by (auto simp: scrobble_def sleep_def Let_def split: if_splits)

lemma processDeadLetterScrobble_shapes:
  assumes dist: "distinct (map id_q (deadLetterScrobbles c))"
    and i: "i < length (deadLetterScrobbles c)"
    and run: "processDeadLetterScrobble e (id_q (deadLetterScrobbles c ! i)) c = (r, c')"
  shows "(deadLetterScrobbles c' = deadLetterScrobbles c \<and> adapterCalls c' = adapterCalls c)
       \<or> (deadLetterScrobbles c' =
             take i (deadLetterScrobbles c) @ drop (Suc i) (deadLetterScrobbles c)
           \<and> (adapterCalls c' = adapterCalls c
               \<or> adapterCalls c' = adapterCalls c @ [play (deadLetterScrobbles c ! i)]))
       \<or> (\<exists>d'. id_q d' = id_q (deadLetterScrobbles c ! i)
                \<and> deadLetterScrobbles c' = (deadLetterScrobbles c)[i := d']
                \<and> adapterCalls c' = adapterCalls c @ [play (deadLetterScrobbles c ! i)])"
proof (cases "isReady c")
  case False
  then show ?thesis
    using run by (simp add: processDeadLetterScrobble_def Let_def)
next
  case True
  let ?d = "deadLetterScrobbles c ! i"
  have idx: "findIndex (\<lambda>x. id_q x = id_q ?d) (deadLetterScrobbles c) = Some i"
    using dist i by (rule findIndex_distinct)
  obtain r0 cr where r0: "refreshIfStale e c = (r0, cr)"
    by fastforce
  have dr: "deadLetterScrobbles cr = deadLetterScrobbles c"
    using r0 by (rule refreshIfStale_deadLetterScrobbles)
  have ar: "adapterCalls cr = adapterCalls c"
    using r0 by (rule refreshIfStale_adapterCalls)
  have idxr: "findIndex (\<lambda>x. id_q x = id_q ?d) (deadLetterScrobbles cr) = Some i"
    using idx dr by simp
  note fin = finishDeadLetterScrobble_at [OF idxr]
  show ?thesis
  proof (cases r0)
    case (Inl err)
    then have "c' = cr"
      using run True r0 by (simp add: processDeadLetterScrobble_def Let_def)
    then show ?thesis
      using dr ar by simp
  next
    case (Inr u)
    note unfold = processDeadLetterScrobble_ready [OF idx True r0 [unfolded Inr]]
    show ?thesis
    proof (cases "fst (timeFrameIsValid e cr (play ?d))")
      case False
      then have "c' = cr\<lparr>deadLetterScrobbles :=
                 take i (deadLetterScrobbles cr) @ drop (Suc i) (deadLetterScrobbles cr)\<rparr>"
        using run unfold fin by simp
      then show ?thesis
        using dr ar by simp
    next
      case valid: True
      show ?thesis
      proof (cases "alreadyScrobbled e cr (play ?d)")
        case (Inl err)
        then have "c' = cr"
          using run unfold valid by simp
        then show ?thesis
          using dr ar by simp
      next
        case (Inr already)
        show ?thesis
        proof (cases already)
          case True
          then have "c' = cr\<lparr>deadLetterScrobbles :=
                 take i (deadLetterScrobbles cr) @ drop (Suc i) (deadLetterScrobbles cr)\<rparr>"
            using run unfold valid Inr fin by simp
          then show ?thesis
            using dr ar by simp
        next
          case False
          then have retry: "retryDeadLetterScrobble e i ?d cr = (r, c')"
            using run unfold valid Inr by simp
          obtain res cs where sc: "scrobble e cr (play ?d) = (res, cs)"
            by fastforce
          have calls: "adapterCalls cs = adapterCalls c @ [play ?d]"
            using scrobble_adapterCalls [OF sc] ar by simp
          show ?thesis
          proof (cases res)
            case (Inl err)
            from retryDeadLetterScrobble_fails [OF sc [unfolded Inl], of i] retry
            have "c' = sleep 1000
              (cs\<lparr>deadLetterScrobbles :=
                    (deadLetterScrobbles cr)
                      [i := ?d\<lparr>retries := retries ?d + 1, error := messageWithCauses e err,
                               lastRetry := Some (now cs)\<rparr>]\<rparr>)"
              by simp
            then have "deadLetterScrobbles c' = (deadLetterScrobbles c)
                      [i := ?d\<lparr>retries := retries ?d + 1, error := messageWithCauses e err,
                               lastRetry := Some (now cs)\<rparr>]"
              and "adapterCalls c' = adapterCalls c @ [play ?d]"
              using dr calls by (simp_all add: sleep_def)
            then show ?thesis
              by (intro disjI2 exI [of _ "?d\<lparr>retries := retries ?d + 1,
                    error := messageWithCauses e err, lastRetry := Some (now cs)\<rparr>"]) simp
          next
            case (Inr scrobbledPlay)
            from retryDeadLetterScrobble_succeeds [OF sc [unfolded Inr] idxr] retry
            have "c' = (sleep 1000 (addScrobbledTrack e (play ?d) scrobbledPlay
                           (emitEvent (Scrobble (play ?d)) cs)))
              \<lparr>deadLetterScrobbles :=
                 take i (deadLetterScrobbles cr) @ drop (Suc i) (deadLetterScrobbles cr)\<rparr>"
              by simp
            then show ?thesis
              using dr calls by (simp add: sleep_def addScrobbledTrack_def emitEvent_def)
          qed
        qed
      qed
    qed
  qed
qed


lemma processDeadLetterScrobble_effect:
  assumes dist: "distinct (map id_q (deadLetterScrobbles c))"
    and i: "i < length (deadLetterScrobbles c)"
    and run: "processDeadLetterScrobble e (id_q (deadLetterScrobbles c ! i)) c = (r, c')"
  shows "distinct (map id_q (deadLetterScrobbles c'))"
    and "set (drop (Suc i) (deadLetterScrobbles c')) \<subseteq> set (drop (Suc i) (deadLetterScrobbles c))"
    and "\<exists>calls. adapterCalls c' = adapterCalls c @ calls
           \<and> set calls \<subseteq> {play (deadLetterScrobbles c ! i)}"
    and "\<forall>d \<in> set (deadLetterScrobbles c). d \<noteq> deadLetterScrobbles c ! i
           \<longrightarrow> d \<in> set (deadLetterScrobbles c')"
proof -
  let ?xs = "deadLetterScrobbles c"
  from processDeadLetterScrobble_shapes [OF dist i run]
  consider
    (same) "deadLetterScrobbles c' = ?xs" "adapterCalls c' = adapterCalls c"
    | (removed) "deadLetterScrobbles c' = take i ?xs @ drop (Suc i) ?xs"
        "adapterCalls c' = adapterCalls c \<or> adapterCalls c' = adapterCalls c @ [play (?xs ! i)]"
    | (updated) d' where "id_q d' = id_q (?xs ! i)" "deadLetterScrobbles c' = ?xs[i := d']"
        "adapterCalls c' = adapterCalls c @ [play (?xs ! i)]"
    by blast
  then have "distinct (map id_q (deadLetterScrobbles c'))
    \<and> set (drop (Suc i) (deadLetterScrobbles c')) \<subseteq> set (drop (Suc i) ?xs)
    \<and> (\<exists>calls. adapterCalls c' = adapterCalls c @ calls \<and> set calls \<subseteq> {play (?xs ! i)})
    \<and> (\<forall>d \<in> set ?xs. d \<noteq> ?xs ! i \<longrightarrow> d \<in> set (deadLetterScrobbles c'))"
  proof cases
    case same
    then show ?thesis
      using dist by simp
  next
    case removed
    have "set (drop (Suc (Suc i)) ?xs) \<subseteq> set (drop (Suc i) ?xs)"
      by (rule set_drop_subset_set_drop) simp
    moreover have "\<exists>calls. adapterCalls c' = adapterCalls c @ calls
        \<and> set calls \<subseteq> {play (?xs ! i)}"
      using removed(2) by (elim disjE) (rule exI [of _ "[]"], simp, rule exI [of _ "[play (?xs ! i)]"], simp)
    moreover have "\<forall>d \<in> set ?xs. d \<noteq> ?xs ! i
        \<longrightarrow> d \<in> set (take i ?xs @ drop (Suc i) ?xs)"
      using i by (blast intro: set_without_nth)
    moreover have "distinct (map id_q (take i ?xs @ drop (Suc i) ?xs))"
      using dist i by (rule distinct_without_nth)
    ultimately show ?thesis
      using removed(1) i by (simp add: drop_without_nth del: map_append set_append)
  next
    case updated
    have "map id_q (?xs[i := d']) = map id_q ?xs"
      using updated(1) i by (metis map_update nth_map list_update_id)
    moreover have "\<exists>calls. adapterCalls c' = adapterCalls c @ calls
        \<and> set calls \<subseteq> {play (?xs ! i)}"
      using updated(3) by (intro exI [of _ "[play (?xs ! i)]"]) simp
    moreover have "\<forall>d \<in> set ?xs. d \<noteq> ?xs ! i \<longrightarrow> d \<in> set (?xs[i := d'])"
      using i by (blast intro: set_update_nth)
    ultimately show ?thesis
      using updated(2) dist by simp
  qed
  then show "distinct (map id_q (deadLetterScrobbles c'))"
    and "set (drop (Suc i) (deadLetterScrobbles c')) \<subseteq> set (drop (Suc i) (deadLetterScrobbles c))"
    and "\<exists>calls. adapterCalls c' = adapterCalls c @ calls
           \<and> set calls \<subseteq> {play (deadLetterScrobbles c ! i)}"
    and "\<forall>d \<in> set (deadLetterScrobbles c). d \<noteq> deadLetterScrobbles c ! i
           \<longrightarrow> d \<in> set (deadLetterScrobbles c')"
    by simp_all
qed


lemma deadLetterLoop_effect:
  assumes "distinct (map id_q (deadLetterScrobbles c))"
    and "deadLetterLoop e R i removedIds c = (r, c')"
  shows "(\<exists>calls. adapterCalls c' = adapterCalls c @ calls
            \<and> set calls \<subseteq> play ` {d \<in> set (drop i (deadLetterScrobbles c)). retries d < R})
       \<and> (\<forall>d \<in> set (deadLetterScrobbles c). \<not> retries d < R \<longrightarrow> d \<in> set (deadLetterScrobbles c'))"
  using assms
proof (induction "length (deadLetterScrobbles c) - i" arbitrary: i removedIds c rule: less_induct)
  case less
  let ?xs = "deadLetterScrobbles c"
  show ?case
  proof (cases "i < length ?xs")
    case False
    then have "c' = c"
      using less.prems(2) by (simp add: deadLetterLoop.simps [of e R i removedIds c])
    then show ?thesis
      by simp
  next
    case True
    let ?d = "?xs ! i"
    have here: "?d \<in> set (drop i ?xs)"
      using True by (metis Cons_nth_drop_Suc list.set_intros(1))
    have later: "set (drop (Suc i) ?xs) \<subseteq> set (drop i ?xs)"
      by (rule set_drop_subset_set_drop) simp
    have mono: "play ` {d \<in> set (drop (Suc i) ?xs). retries d < R}
        \<subseteq> play ` {d \<in> set (drop i ?xs). retries d < R}"
      using later by blast
    show ?thesis
    proof (cases "retries ?d < R")
      case False
      then have next_run: "deadLetterLoop e R (i + 1) removedIds c = (r, c')"
        using less.prems(2) True by (simp add: deadLetterLoop.simps [of e R i removedIds c])
      have "length ?xs - (i + 1) < length ?xs - i"
        using True by simp
      from less.hyps [OF this less.prems(1) next_run]
      obtain calls where calls: "adapterCalls c' = adapterCalls c @ calls"
        "set calls \<subseteq> play ` {d \<in> set (drop (Suc i) ?xs). retries d < R}"
        and keep: "\<forall>d \<in> set ?xs. \<not> retries d < R \<longrightarrow> d \<in> set (deadLetterScrobbles c')"
        by auto
      have "set calls \<subseteq> play ` {d \<in> set (drop i ?xs). retries d < R}"
        using calls(2) mono by (rule order_trans)
      then show ?thesis
        using calls(1) keep by (intro conjI exI [of _ calls]) simp_all
    next
      case attempt: True
      obtain r1 c1 where step: "processDeadLetterScrobble e (id_q ?d) c = (r1, c1)"
        by fastforce
      note eff = processDeadLetterScrobble_effect [OF less.prems(1) True step]
      from eff(3) obtain calls1 where calls1: "adapterCalls c1 = adapterCalls c @ calls1"
        "set calls1 \<subseteq> {play ?d}"
        by blast
      have calls1_ok: "set calls1 \<subseteq> play ` {d \<in> set (drop i ?xs). retries d < R}"
        using calls1(2) here attempt by auto
      have keep1: "\<forall>d \<in> set ?xs. \<not> retries d < R \<longrightarrow> d \<in> set (deadLetterScrobbles c1)"
        using eff(4) attempt by auto
      show ?thesis
      proof (cases r1)
        case (Inl err)
        then have "c' = c1"
          using less.prems(2) True attempt step
          by (simp add: deadLetterLoop.simps [of e R i removedIds c])
        then show ?thesis
          using calls1(1) calls1_ok keep1
          by (intro conjI exI [of _ calls1]) simp_all
      next
        case (Inr res)
        obtain scrobbled dead where res: "res = (scrobbled, dead)"
          by (cases res)
        have next_run: "deadLetterLoop e R (i + 1)
            (if scrobbled then removedIds @ [id_q ?d] else removedIds) c1 = (r, c')"
          using less.prems(2) True attempt step Inr res
          by (simp add: deadLetterLoop.simps [of e R i removedIds c])
        have "length (deadLetterScrobbles c1) \<le> length ?xs"
          using step by (rule processDeadLetterScrobble_length)
        then have "length (deadLetterScrobbles c1) - (i + 1) < length ?xs - i"
          using True by simp
        from less.hyps [OF this eff(1) next_run]
        obtain calls2 where calls2: "adapterCalls c' = adapterCalls c1 @ calls2"
          "set calls2 \<subseteq> play ` {d \<in> set (drop (i + 1) (deadLetterScrobbles c1)). retries d < R}"
          and keep2: "\<forall>d \<in> set (deadLetterScrobbles c1). \<not> retries d < R
                \<longrightarrow> d \<in> set (deadLetterScrobbles c')"
          by blast
        have shrink: "play ` {d \<in> set (drop (i + 1) (deadLetterScrobbles c1)). retries d < R}
            \<subseteq> play ` {d \<in> set (drop (Suc i) ?xs). retries d < R}"
          using eff(2) by auto
        have "set calls2 \<subseteq> play ` {d \<in> set (drop i ?xs). retries d < R}"
          by (rule order_trans [OF calls2(2) order_trans [OF shrink mono]])
        then have calls: "adapterCalls c' = adapterCalls c @ (calls1 @ calls2)
            \<and> set (calls1 @ calls2) \<subseteq> play ` {d \<in> set (drop i ?xs). retries d < R}"
          using calls1(1) calls2(1) calls1_ok by simp
        have keep: "\<forall>d \<in> set ?xs. \<not> retries d < R \<longrightarrow> d \<in> set (deadLetterScrobbles c')"
          using keep1 keep2 by simp
        show ?thesis
          using calls keep by (intro conjI exI [of _ "calls1 @ calls2"]) simp_all
      qed
    qed
  qed
qed


lemma processDeadLetterScrobble_at:
  assumes dist: "distinct (map id_q (deadLetterScrobbles c))"
    and i: "i < length (deadLetterScrobbles c)"
  shows "processDeadLetterScrobble e (id_q (deadLetterScrobbles c ! i)) c =
     (if \<not> isReady c then (Inr (False, Some (deadLetterScrobbles c ! i)), c)
      else
        (case refreshIfStale e c of
           (Inl err, cr) \<Rightarrow> (Inl err, cr)
         | (Inr u, cr) \<Rightarrow>
             if fst (timeFrameIsValid e cr (play (deadLetterScrobbles c ! i)))
             then
               (case alreadyScrobbled e cr (play (deadLetterScrobbles c ! i)) of
                  Inl err \<Rightarrow> (Inl err, cr)
                | Inr already \<Rightarrow>
                    if already
                    then (Inr (True, None),
                          cr\<lparr>deadLetterScrobbles :=
                                take i (deadLetterScrobbles c)
                                  @ drop (Suc i) (deadLetterScrobbles c)\<rparr>)
                    else
                      (case scrobble e cr (play (deadLetterScrobbles c ! i)) of
                         (Inl err, cs) \<Rightarrow>
                           (Inr (False,
                                 Some ((deadLetterScrobbles c ! i)
                                   \<lparr>retries := retries (deadLetterScrobbles c ! i) + 1,
                                    error := messageWithCauses e err,
                                    lastRetry := Some (now cs)\<rparr>)),
                            sleep 1000
                              (cs\<lparr>deadLetterScrobbles :=
                                    (deadLetterScrobbles c)
                                      [i := (deadLetterScrobbles c ! i)
                                         \<lparr>retries := retries (deadLetterScrobbles c ! i) + 1,
                                          error := messageWithCauses e err,
                                          lastRetry := Some (now cs)\<rparr>]\<rparr>))
                       | (Inr scrobbledPlay, cs) \<Rightarrow>
                           (Inr (True, None),
                            (sleep 1000
                               (addScrobbledTrack e (play (deadLetterScrobbles c ! i))
                                  scrobbledPlay
                                  (emitEvent (Scrobble (play (deadLetterScrobbles c ! i))) cs)))
                              \<lparr>deadLetterScrobbles :=
                                 take i (deadLetterScrobbles c)
                                   @ drop (Suc i) (deadLetterScrobbles c)\<rparr>)))
             else (Inr (True, None),
                   cr\<lparr>deadLetterScrobbles :=
                         take i (deadLetterScrobbles c)
                           @ drop (Suc i) (deadLetterScrobbles c)\<rparr>)))"
proof (cases "isReady c")
  case False
  have "findIndex (\<lambda>x. id_q x = id_q (deadLetterScrobbles c ! i)) (deadLetterScrobbles c)
      = Some i"
    using dist i by (rule findIndex_distinct)
  then show ?thesis
    using False by (simp add: processDeadLetterScrobble_def Let_def)
next
  case True
  let ?xs = "deadLetterScrobbles c"
  let ?d = "?xs ! i"
  have idx: "findIndex (\<lambda>x. id_q x = id_q ?d) ?xs = Some i"
    using dist i by (rule findIndex_distinct)
  obtain r0 cr where r0: "refreshIfStale e c = (r0, cr)"
    by fastforce
  have dr: "deadLetterScrobbles cr = ?xs"
    using r0 by (rule refreshIfStale_deadLetterScrobbles)
  have idxr: "findIndex (\<lambda>x. id_q x = id_q ?d) (deadLetterScrobbles cr) = Some i"
    using idx dr by simp
  have fin: "finishDeadLetterScrobble (id_q ?d) cr =
      (Inr (True, None), cr\<lparr>deadLetterScrobbles := take i ?xs @ drop (Suc i) ?xs\<rparr>)"
    using finishDeadLetterScrobble_at [OF idxr] dr by simp
  show ?thesis
  proof (cases r0)
    case (Inl err)
    then show ?thesis
      using True r0 by (simp add: processDeadLetterScrobble_def Let_def)
  next
    case (Inr u)
    note unfold = processDeadLetterScrobble_ready [OF idx True r0 [unfolded Inr]]
    obtain res cs where sc: "scrobble e cr (play ?d) = (res, cs)"
      by fastforce
    have retry: "retryDeadLetterScrobble e i ?d cr =
        (case res of
           Inl err \<Rightarrow>
             (Inr (False, Some (?d\<lparr>retries := retries ?d + 1,
                                     error := messageWithCauses e err,
                                     lastRetry := Some (now cs)\<rparr>)),
              sleep 1000
                (cs\<lparr>deadLetterScrobbles :=
                      ?xs[i := ?d\<lparr>retries := retries ?d + 1,
                                    error := messageWithCauses e err,
                                    lastRetry := Some (now cs)\<rparr>]\<rparr>))
         | Inr scrobbledPlay \<Rightarrow>
             (Inr (True, None),
              (sleep 1000 (addScrobbledTrack e (play ?d) scrobbledPlay
                             (emitEvent (Scrobble (play ?d)) cs)))
                \<lparr>deadLetterScrobbles := take i ?xs @ drop (Suc i) ?xs\<rparr>))"
    proof (cases res)
      case (Inl err)
      show ?thesis
        using retryDeadLetterScrobble_fails [OF sc [unfolded Inl], of i] dr
        by (simp add: Inl)
    next
      case (Inr scrobbledPlay)
      show ?thesis
        using retryDeadLetterScrobble_succeeds [OF sc [unfolded Inr] idxr] dr
        by (simp add: Inr)
    qed
    show ?thesis
      using True
      by (simp add: unfold r0 Inr fin sc retry split: sum.splits)
  qed
qed

text \<open>
  Claim C3. Let the entries of the dead letter queue have distinct identifiers. The
  theorem fixes a run of \<^verbatim>\<open>processDeadLetterQueue\<close> step by step.

  The run does nothing on an empty queue, throws for a configuration without data, and
  does nothing when no entry has fewer retries than the limit \<open>R\<close> (the argument, else
  the option \<^verbatim>\<open>deadLetterRetries\<close>, else 1); otherwise it is the loop from position 0.

  The loop at position \<open>i\<close> ends behind the last entry, passes over an entry with \<open>R\<close>
  retries or more and leaves it as it is, and calls \<^verbatim>\<open>processDeadLetterScrobble\<close> for an
  entry with fewer; it goes on at position \<open>i + 1\<close> of the queue as the call has left it,
  so after a removal the entry that moved up to position \<open>i\<close> is passed over in this run.

  The call for the entry at position \<open>i\<close> does nothing when the client is not ready. It
  removes the entry without an attempt when the play is outside the timeframe or is
  already scrobbled. Else it hands the play to \<^verbatim>\<open>scrobble\<close>: when that succeeds the
  entry is removed, and when it throws \<open>err\<close> the entry stays at its position with one
  more retry, the message of \<open>err\<close> as its error and the time of the attempt as its last
  retry.

  Every play that a run hands to the adapter belongs to an entry with fewer than \<open>R\<close>
  retries, and every entry with \<open>R\<close> retries or more is in the queue after the run.
\<close>

theorem processDeadLetterQueue_attempts:
  assumes "distinct (map id_q (deadLetterScrobbles c))"
  shows "processDeadLetterQueue e attemptWithRetries c =
           (if deadLetterScrobbles c = [] then (Inr (), c)
            else
              (case config_data c of
                 None \<Rightarrow> (Inl (TypeError ''this.config.data is undefined''), c)
               | Some cfg \<Rightarrow>
                   if filter (\<lambda>x. retries x < retryLimit attemptWithRetries cfg)
                        (deadLetterScrobbles c) = []
                   then (Inr (), c)
                   else (case deadLetterLoop e (retryLimit attemptWithRetries cfg) 0 [] c of
                           (Inl err, c1) \<Rightarrow> (Inl err, c1)
                         | (Inr removedIds, c1) \<Rightarrow> (Inr (), c1))))
       \<and> (\<forall>R i removedIds.
             deadLetterLoop e R i removedIds c =
               (if i < length (deadLetterScrobbles c)
                then
                  if retries (deadLetterScrobbles c ! i) < R
                  then
                    (case processDeadLetterScrobble e (id_q (deadLetterScrobbles c ! i)) c of
                       (Inl err, c1) \<Rightarrow> (Inl err, c1)
                     | (Inr (scrobbled, dead), c1) \<Rightarrow>
                         deadLetterLoop e R (i + 1)
                           (if scrobbled then removedIds @ [id_q (deadLetterScrobbles c ! i)]
                            else removedIds) c1)
                  else deadLetterLoop e R (i + 1) removedIds c
                else (Inr removedIds, c)))
       \<and> (\<forall>i. i < length (deadLetterScrobbles c) \<longrightarrow>
             processDeadLetterScrobble e (id_q (deadLetterScrobbles c ! i)) c =
               (if \<not> isReady c then (Inr (False, Some (deadLetterScrobbles c ! i)), c)
                else
                  (case refreshIfStale e c of
                     (Inl err, cr) \<Rightarrow> (Inl err, cr)
                   | (Inr u, cr) \<Rightarrow>
                       if fst (timeFrameIsValid e cr (play (deadLetterScrobbles c ! i)))
                       then
                         (case alreadyScrobbled e cr (play (deadLetterScrobbles c ! i)) of
                            Inl err \<Rightarrow> (Inl err, cr)
                          | Inr already \<Rightarrow>
                              if already
                              then (Inr (True, None),
                                    cr\<lparr>deadLetterScrobbles :=
                                          take i (deadLetterScrobbles c)
                                            @ drop (Suc i) (deadLetterScrobbles c)\<rparr>)
                              else
                                (case scrobble e cr (play (deadLetterScrobbles c ! i)) of
                                   (Inl err, cs) \<Rightarrow>
                                     (Inr (False,
                                           Some ((deadLetterScrobbles c ! i)
                                             \<lparr>retries :=
                                                retries (deadLetterScrobbles c ! i) + 1,
                                              error := messageWithCauses e err,
                                              lastRetry := Some (now cs)\<rparr>)),
                                      sleep 1000
                                        (cs\<lparr>deadLetterScrobbles :=
                                              (deadLetterScrobbles c)
                                                [i := (deadLetterScrobbles c ! i)
                                                   \<lparr>retries :=
                                                      retries (deadLetterScrobbles c ! i) + 1,
                                                    error := messageWithCauses e err,
                                                    lastRetry := Some (now cs)\<rparr>]\<rparr>))
                                 | (Inr scrobbledPlay, cs) \<Rightarrow>
                                     (Inr (True, None),
                                      (sleep 1000
                                         (addScrobbledTrack e
                                            (play (deadLetterScrobbles c ! i)) scrobbledPlay
                                            (emitEvent
                                               (Scrobble (play (deadLetterScrobbles c ! i)))
                                               cs)))
                                        \<lparr>deadLetterScrobbles :=
                                           take i (deadLetterScrobbles c)
                                             @ drop (Suc i) (deadLetterScrobbles c)\<rparr>)))
                       else (Inr (True, None),
                             cr\<lparr>deadLetterScrobbles :=
                                   take i (deadLetterScrobbles c)
                                     @ drop (Suc i) (deadLetterScrobbles c)\<rparr>))))
       \<and> (\<forall>cfg. config_data c = Some cfg \<longrightarrow>
             (\<exists>calls. adapterCalls (snd (processDeadLetterQueue e attemptWithRetries c))
                        = adapterCalls c @ calls
                \<and> set calls \<subseteq> play ` {d \<in> set (deadLetterScrobbles c).
                                          retries d < retryLimit attemptWithRetries cfg})
             \<and> (\<forall>d \<in> set (deadLetterScrobbles c).
                   \<not> retries d < retryLimit attemptWithRetries cfg
                   \<longrightarrow> d \<in> set (deadLetterScrobbles
                                  (snd (processDeadLetterQueue e attemptWithRetries c)))))"
proof -
  let ?xs = "deadLetterScrobbles c"
  let ?run = "processDeadLetterQueue e attemptWithRetries c"
  have run: "?run =
           (if ?xs = [] then (Inr (), c)
            else
              (case config_data c of
                 None \<Rightarrow> (Inl (TypeError ''this.config.data is undefined''), c)
               | Some cfg \<Rightarrow>
                   if filter (\<lambda>x. retries x < retryLimit attemptWithRetries cfg) ?xs = []
                   then (Inr (), c)
                   else (case deadLetterLoop e (retryLimit attemptWithRetries cfg) 0 [] c of
                           (Inl err, c1) \<Rightarrow> (Inl err, c1)
                         | (Inr removedIds, c1) \<Rightarrow> (Inr (), c1))))"
    by (simp add: processDeadLetterQueue_def Let_def split: option.splits)
  have loop: "\<forall>R i removedIds.
             deadLetterLoop e R i removedIds c =
               (if i < length ?xs
                then
                  if retries (?xs ! i) < R
                  then
                    (case processDeadLetterScrobble e (id_q (?xs ! i)) c of
                       (Inl err, c1) \<Rightarrow> (Inl err, c1)
                     | (Inr (scrobbled, dead), c1) \<Rightarrow>
                         deadLetterLoop e R (i + 1)
                           (if scrobbled then removedIds @ [id_q (?xs ! i)]
                            else removedIds) c1)
                  else deadLetterLoop e R (i + 1) removedIds c
                else (Inr removedIds, c))"
  proof (intro allI)
    fix R i removedIds
    show "deadLetterLoop e R i removedIds c =
               (if i < length ?xs
                then
                  if retries (?xs ! i) < R
                  then
                    (case processDeadLetterScrobble e (id_q (?xs ! i)) c of
                       (Inl err, c1) \<Rightarrow> (Inl err, c1)
                     | (Inr (scrobbled, dead), c1) \<Rightarrow>
                         deadLetterLoop e R (i + 1)
                           (if scrobbled then removedIds @ [id_q (?xs ! i)]
                            else removedIds) c1)
                  else deadLetterLoop e R (i + 1) removedIds c
                else (Inr removedIds, c))"
      by (subst deadLetterLoop.simps) (simp add: Let_def)
  qed
  have bounds: "\<forall>cfg. config_data c = Some cfg \<longrightarrow>
             (\<exists>calls. adapterCalls (snd ?run) = adapterCalls c @ calls
                \<and> set calls \<subseteq> play ` {d \<in> set ?xs.
                                          retries d < retryLimit attemptWithRetries cfg})
             \<and> (\<forall>d \<in> set ?xs.
                   \<not> retries d < retryLimit attemptWithRetries cfg
                   \<longrightarrow> d \<in> set (deadLetterScrobbles (snd ?run)))"
  proof (intro allI impI)
    fix cfg
    assume cfg: "config_data c = Some cfg"
    let ?R = "retryLimit attemptWithRetries cfg"
    show "(\<exists>calls. adapterCalls (snd ?run) = adapterCalls c @ calls
                \<and> set calls \<subseteq> play ` {d \<in> set ?xs. retries d < ?R})
          \<and> (\<forall>d \<in> set ?xs. \<not> retries d < ?R \<longrightarrow> d \<in> set (deadLetterScrobbles (snd ?run)))"
    proof (cases "?xs = [] \<or> filter (\<lambda>x. retries x < ?R) ?xs = []")
      case True
      then have "snd ?run = c"
        using cfg by (auto simp: run)
      then show ?thesis
        by simp
    next
      case False
      obtain r1 c1 where lp: "deadLetterLoop e ?R 0 [] c = (r1, c1)"
        by fastforce
      have "snd ?run = c1"
        using False lp cfg by (auto simp: run split: sum.splits)
      then show ?thesis
        using deadLetterLoop_effect [OF assms lp] by simp
    qed
  qed
  show ?thesis
    apply (rule conjI)
     apply (rule run)
    apply (rule conjI)
     apply (rule loop)
    apply (rule conjI)
     apply (intro allI impI)
     apply (erule processDeadLetterScrobble_at [OF assms])
    apply (rule bounds)
    done
qed


text \<open>
  Two runs with the default limit 1. In the first the queue holds \<open>a\<close> and \<open>b\<close> without a
  retry and \<open>c\<close> with one, and the adapter rejects the play of \<open>a\<close> and accepts every
  other: \<open>a\<close> stays with one retry, its error and the time 5000 of the attempt, \<open>b\<close> is
  scrobbled and removed, and \<open>c\<close> is as before. In the second the adapter accepts every
  play and the queue holds \<open>a\<close> and \<open>b\<close> without a retry: \<open>a\<close> is scrobbled and removed,
  and \<open>b\<close>, which has moved to the first position, is passed over.
\<close>

theorem processDeadLetterQueue_attempts_witness:
  "processDeadLetterQueue
     (exampleEnv\<lparr>doScrobble :=
        \<lambda>c p. if playDate (data p) = 1000 then Inl rateLimited else Inr p\<rparr>)
     None
     (exampleClient\<lparr>deadLetterScrobbles :=
        [exampleDead ''a'' 0 1000, exampleDead ''b'' 0 2000, exampleDead ''c'' 1 3000]\<rparr>)
   = (Inr (),
      exampleClient
        \<lparr>deadLetterScrobbles :=
           [(exampleDead ''a'' 0 1000)
              \<lparr>retries := 1, error := ''rate limited'', lastRetry := Some 5000\<rparr>,
            exampleDead ''c'' 1 3000],
         adapterCalls := [play (exampleDead ''a'' 0 1000), play (exampleDead ''b'' 0 2000)],
         lastScrobbleAttempt := 6000,
         now := 7000,
         scrobbledPlayObjs :=
           [\<lparr>play_s = play (exampleDead ''b'' 0 2000),
             scrobble_s = play (exampleDead ''b'' 0 2000)\<rparr>],
         tracksScrobbled := 1,
         emitted := [Scrobble (play (exampleDead ''b'' 0 2000))]\<rparr>)
   \<and> deadLetterScrobbles
       (snd (processDeadLetterQueue exampleEnv None
          (exampleClient\<lparr>deadLetterScrobbles :=
             [exampleDead ''a'' 0 1000, exampleDead ''b'' 0 2000]\<rparr>)))
     = [exampleDead ''b'' 0 2000]"
proof -
  let ?ea = "exampleDead ''a'' 0 1000"
  let ?eb = "exampleDead ''b'' 0 2000"
  let ?ec = "exampleDead ''c'' 1 3000"
  let ?fa = "?ea\<lparr>retries := 1, error := ''rate limited'', lastRetry := Some 5000\<rparr>"
  let ?e = "exampleEnv\<lparr>doScrobble :=
        \<lambda>c p. if playDate (data p) = 1000 then Inl rateLimited else Inr p\<rparr>"
  let ?st0 = "exampleClient\<lparr>deadLetterScrobbles := [?ea, ?eb, ?ec]\<rparr>"
  let ?st1 = "exampleClient\<lparr>deadLetterScrobbles := [?fa, ?eb, ?ec],
      adapterCalls := [play ?ea], lastScrobbleAttempt := 5000, now := 6000\<rparr>"
  let ?st2 = "exampleClient
        \<lparr>deadLetterScrobbles := [?fa, ?ec],
         adapterCalls := [play ?ea, play ?eb],
         lastScrobbleAttempt := 6000,
         now := 7000,
         scrobbledPlayObjs := [\<lparr>play_s = play ?eb, scrobble_s = play ?eb\<rparr>],
         tracksScrobbled := 1,
         emitted := [Scrobble (play ?eb)]\<rparr>"
  let ?d0 = "exampleClient\<lparr>deadLetterScrobbles := [?ea, ?eb]\<rparr>"
  let ?d1 = "exampleClient
        \<lparr>deadLetterScrobbles := [?eb],
         adapterCalls := [play ?ea],
         lastScrobbleAttempt := 5000,
         now := 6000,
         scrobbledPlayObjs := [\<lparr>play_s = play ?ea, scrobble_s = play ?ea\<rparr>],
         tracksScrobbled := 1,
         emitted := [Scrobble (play ?ea)]\<rparr>"
  note defs = exampleDead_def examplePlay_def exampleClient_def exampleEnv_def rateLimited_def
    isReady_def authGated_def refreshIfStale_def getLatestQueuePlayDate_def
    timeFrameIsValid_def scrobble_def sleep_def emitEvent_def addScrobbledTrack_def
    retryLimit_def Let_def
  have dist: "distinct (map id_q (deadLetterScrobbles ?st0))"
    "distinct (map id_q (deadLetterScrobbles ?st1))"
    "distinct (map id_q (deadLetterScrobbles ?st2))"
    "distinct (map id_q (deadLetterScrobbles ?d0))"
    "distinct (map id_q (deadLetterScrobbles ?d1))"
    by (simp_all add: exampleDead_def)
  note run0 = processDeadLetterQueue_attempts [OF dist(1), of ?e None, THEN conjunct1]
  note loop0 = processDeadLetterQueue_attempts [OF dist(1), of ?e None, THEN conjunct2,
      THEN conjunct1, rule_format, of 1 0 "[]"]
  note step0 = processDeadLetterQueue_attempts [OF dist(1), of ?e None, THEN conjunct2,
      THEN conjunct2, THEN conjunct1, rule_format, of 0]
  note loop1 = processDeadLetterQueue_attempts [OF dist(2), of ?e None, THEN conjunct2,
      THEN conjunct1, rule_format, of 1 1 "[]"]
  note step1 = processDeadLetterQueue_attempts [OF dist(2), of ?e None, THEN conjunct2,
      THEN conjunct2, THEN conjunct1, rule_format, of 1]
  note loop2 = processDeadLetterQueue_attempts [OF dist(3), of ?e None, THEN conjunct2,
      THEN conjunct1, rule_format, of 1 "Suc 1" "[''b'']"]
  have s0: "processDeadLetterScrobble ?e ''a'' ?st0 = (Inr (False, Some ?fa), ?st1)"
    using step0 by (simp add: defs)
  have s1: "processDeadLetterScrobble ?e ''b'' ?st1 = (Inr (True, None), ?st2)"
    using step1 by (simp add: defs)
  have l2: "deadLetterLoop ?e 1 (Suc 1) [''b''] ?st2 = (Inr [''b''], ?st2)"
    using loop2 by simp
  have l1: "deadLetterLoop ?e 1 1 [] ?st1 = (Inr [''b''], ?st2)"
    using loop1 s1 l2 by (simp add: exampleDead_def)
  have l0: "deadLetterLoop ?e 1 0 [] ?st0 = (Inr [''b''], ?st2)"
    using loop0 s0 l1 by (simp add: exampleDead_def)
  have first: "processDeadLetterQueue ?e None ?st0 = (Inr (), ?st2)"
    using run0 l0 by (simp add: exampleDead_def exampleClient_def retryLimit_def)
  note runD = processDeadLetterQueue_attempts [OF dist(4), of exampleEnv None, THEN conjunct1]
  note loopD0 = processDeadLetterQueue_attempts [OF dist(4), of exampleEnv None,
      THEN conjunct2, THEN conjunct1, rule_format, of 1 0 "[]"]
  note stepD0 = processDeadLetterQueue_attempts [OF dist(4), of exampleEnv None,
      THEN conjunct2, THEN conjunct2, THEN conjunct1, rule_format, of 0]
  note loopD1 = processDeadLetterQueue_attempts [OF dist(5), of exampleEnv None,
      THEN conjunct2, THEN conjunct1, rule_format, of 1 1 "[''a'']"]
  have sD0: "processDeadLetterScrobble exampleEnv ''a'' ?d0 = (Inr (True, None), ?d1)"
    using stepD0 by (simp add: defs)
  have lD1: "deadLetterLoop exampleEnv 1 1 [''a''] ?d1 = (Inr [''a''], ?d1)"
    using loopD1 by simp
  have lD0: "deadLetterLoop exampleEnv 1 0 [] ?d0 = (Inr [''a''], ?d1)"
    using loopD0 sD0 lD1 by (simp add: exampleDead_def)
  have second: "processDeadLetterQueue exampleEnv None ?d0 = (Inr (), ?d1)"
    using runD lD0 by (simp add: exampleDead_def exampleClient_def retryLimit_def)
  show ?thesis
    using first second by simp
qed

end
